theory Spec2Isabelle
  imports Complex_Main "HOL-Library.Log_Nat" "HOL-Library.Code_Target_Numeral"
begin

section \<open>Double-precision arithmetic\<close>

text \<open>
  Every constant of \<^verbatim>\<open>Units.hpp\<close> is a \<^verbatim>\<open>const double\<close>, and the function templates
  \<^verbatim>\<open>square\<close>, \<^verbatim>\<open>cubic\<close>, \<^verbatim>\<open>from\<close> and \<^verbatim>\<open>to\<close> are used at \<^verbatim>\<open>double\<close>.  A double is modelled
  as an IEEE 754 binary64 datum: a finite value is a sign bit (\<open>True\<close> for negative) and a
  nonnegative rational magnitude, next to the two infinities and NaN.  Each arithmetic
  operation and each literal is rounded once, to the nearest representable value, ties to
  the even significand (the default rounding mode, with every intermediate result held in
  a double).  An integer literal that meets a double, as in \<^verbatim>\<open>12 * inch\<close>, is converted to
  double first; all of them are below \<open>2 ^ 53\<close> and convert exactly.
\<close>

datatype double = Finite bool rat | Infinity bool | NaN

text \<open>\<open>pow2 e\<close> is \<open>2\<close> to the power \<open>e\<close>, for an integer exponent.\<close>

definition pow2 :: "int \<Rightarrow> rat" where
  "pow2 e = 2 powi e"

text \<open>
  \<open>ilog2 r\<close> is the binary exponent of a positive rational: the integer \<open>e\<close> with
  \<open>2 ^ e \<le> r < 2 ^ (e + 1)\<close>, computed from the bit lengths of numerator and denominator.
\<close>

definition ilog2 :: "rat \<Rightarrow> int" where
  "ilog2 r = (let (p, q) = quotient_of r;
                  d = int (floorlog 2 (nat p)) - int (floorlog 2 (nat q))
              in if pow2 d \<le> r then d else d - 1)"

text \<open>Rounding of a rational to the nearest integer, a tie going to the even neighbour.\<close>

definition round_even :: "rat \<Rightarrow> int" where
  "round_even x = (let f = \<lfloor>x\<rfloor>; d = x - of_int f in
     if d < 1 / 2 then f
     else if 1 / 2 < d then f + 1
     else if even f then f else f + 1)"

text \<open>
  \<open>rnd s r\<close> rounds the magnitude \<open>r \<ge> 0\<close> with sign \<open>s\<close> to binary64: 53 significant
  bits, the exponent not below \<open>-1022\<close> (below it the spacing stays \<open>2 ^ -1074\<close>, the
  subnormal range), and overflow to infinity when the rounded magnitude reaches \<open>2 ^ 1024\<close>.
\<close>

definition rnd :: "bool \<Rightarrow> rat \<Rightarrow> double" where
  "rnd s r = (if r = 0 then Finite s 0
     else let e = max (ilog2 r) (- 1022);
              u = pow2 (e - 52);
              m = of_int (round_even (r / u)) * u
          in if pow2 1024 \<le> m then Infinity s else Finite s m)"

text \<open>
  \<open>dbl r\<close> is the double denoted by a literal of exact value \<open>r\<close> (a decimal floating
  literal, or an integer literal converted to double).
\<close>

definition dbl :: "rat \<Rightarrow> double" where
  "dbl r = rnd (r < 0) \<bar>r\<bar>"

fun dmul :: "double \<Rightarrow> double \<Rightarrow> double" where
  "dmul (Finite s m) (Finite t n) = rnd (s \<noteq> t) (m * n)"
| "dmul (Finite s m) (Infinity t) = (if m = 0 then NaN else Infinity (s \<noteq> t))"
| "dmul (Infinity s) (Finite t n) = (if n = 0 then NaN else Infinity (s \<noteq> t))"
| "dmul (Infinity s) (Infinity t) = Infinity (s \<noteq> t)"
| "dmul NaN y = NaN"
| "dmul x NaN = NaN"

fun ddiv :: "double \<Rightarrow> double \<Rightarrow> double" where
  "ddiv (Finite s m) (Finite t n) =
     (if n = 0 then (if m = 0 then NaN else Infinity (s \<noteq> t))
      else rnd (s \<noteq> t) (m / n))"
| "ddiv (Finite s m) (Infinity t) = Finite (s \<noteq> t) 0"
| "ddiv (Infinity s) (Finite t n) = Infinity (s \<noteq> t)"
| "ddiv (Infinity s) (Infinity t) = NaN"
| "ddiv NaN y = NaN"
| "ddiv x NaN = NaN"

text \<open>
  The comparison \<^verbatim>\<open>==\<close> of two doubles: NaN equals nothing, and the two zeros are equal.
\<close>

fun deq :: "double \<Rightarrow> double \<Rightarrow> bool" where
  "deq (Finite s m) (Finite t n) = (m = n \<and> (s = t \<or> m = 0))"
| "deq (Infinity s) (Infinity t) = (s = t)"
| "deq x y = False"

fun is_nan :: "double \<Rightarrow> bool" where
  "is_nan NaN = True"
| "is_nan x = False"

fun is_inf :: "double \<Rightarrow> bool" where
  "is_inf (Infinity s) = True"
| "is_inf x = False"

fun is_finite :: "double \<Rightarrow> bool" where
  "is_finite (Finite s m) = True"
| "is_finite x = False"

fun is_zero :: "double \<Rightarrow> bool" where
  "is_zero (Finite s m) = (m = 0)"
| "is_zero x = False"

text \<open>The sign bit and the magnitude of a finite double.\<close>

fun sign_of :: "double \<Rightarrow> bool" where
  "sign_of (Finite s m) = s"
| "sign_of (Infinity s) = s"
| "sign_of NaN = False"

fun mag :: "double \<Rightarrow> rat" where
  "mag (Finite s m) = m"
| "mag x = 0"

text \<open>The rational value of a finite double.\<close>

fun val :: "double \<Rightarrow> rat" where
  "val (Finite s m) = (if s then - m else m)"
| "val x = 0"

text \<open>
  The operators \<^verbatim>\<open>*\<close> and \<^verbatim>\<open>/\<close> at type \<^verbatim>\<open>double\<close>.  (The class of \<open>/\<close> also asks
  for a reciprocal, which the header never uses.)
\<close>

instantiation double :: "{times, inverse}"
begin

definition times_double :: "double \<Rightarrow> double \<Rightarrow> double" where
  "times_double x y = dmul x y"

definition divide_double :: "double \<Rightarrow> double \<Rightarrow> double" where
  "divide_double x y = ddiv x y"

definition inverse_double :: "double \<Rightarrow> double" where
  "inverse_double x = ddiv (dbl 1) x"

instance ..

end

section \<open>The constants of \<^verbatim>\<open>Units.hpp\<close>\<close>

subsection \<open>Namespace \<^verbatim>\<open>Dune::prefix\<close>\<close>

text \<open>Lines 46 to 52: the literals \<^verbatim>\<open>1.0e-6\<close> to \<^verbatim>\<open>1.0e9\<close>.\<close>

definition micro :: double where "micro = dbl (1 / 10 ^ 6)"
definition milli :: double where "milli = dbl (1 / 10 ^ 3)"
definition centi :: double where "centi = dbl (1 / 10 ^ 2)"
definition deci :: double where "deci = dbl (1 / 10)"
definition kilo :: double where "kilo = dbl (10 ^ 3)"
definition mega :: double where "mega = dbl (10 ^ 6)"
definition giga :: double where "giga = dbl (10 ^ 9)"

subsection \<open>Namespace \<^verbatim>\<open>Dune::unit\<close>\<close>

text \<open>
  Lines 58 to 125, in the order of the header: the templates \<^verbatim>\<open>square\<close> and \<^verbatim>\<open>cubic\<close>, the
  units of length, time and mass, the standard gravity, force, pressure, viscosity, the five
  constants of the anonymous namespace, and \<^verbatim>\<open>darcy\<close>.  The operators associate to the left
  as in C++.
\<close>

definition square :: "'a::times \<Rightarrow> 'a" where
  "square v = v * v"

definition cubic :: "'a::times \<Rightarrow> 'a" where
  "cubic v = v * v * v"

definition meter :: double where "meter = dbl 1"
definition inch :: double where "inch = dbl (254 / 100) * centi * meter"
definition feet :: double where "feet = dbl 12 * inch"

definition second :: double where "second = dbl 1"
definition minute :: double where "minute = dbl 60 * second"
definition hour :: double where "hour = dbl 60 * minute"
definition day :: double where "day = dbl 24 * hour"
definition year :: double where "year = dbl 365 * day"

definition kilogram :: double where "kilogram = dbl 1"
definition pound :: double where "pound = dbl (45359237 / 10 ^ 8) * kilogram"

definition gravity :: double where
  "gravity = dbl (980665 / 10 ^ 5) * meter / square second"

definition Newton :: double where "Newton = kilogram * meter / square second"
definition lbf :: double where "lbf = pound * gravity"

definition Pascal :: double where "Pascal = Newton / square meter"
definition barsa :: double where "barsa = dbl 100000 * Pascal"
definition atm :: double where "atm = dbl 101325 * Pascal"
definition psia :: double where "psia = lbf / square inch"

definition Pas :: double where "Pas = Pascal * second"
definition Poise :: double where "Poise = deci * Pas"

definition p_grad :: double where "p_grad = atm / (centi * meter)"
definition area :: double where "area = square (centi * meter)"
definition flux :: double where "flux = cubic (centi * meter) / second"
definition velocity :: double where "velocity = flux / area"
definition visc :: double where "visc = centi * Poise"

definition darcy :: double where "darcy = (velocity * visc) / p_grad"

text \<open>
  Namespace \<^verbatim>\<open>convert\<close>, lines 150 to 172: the templates \<^verbatim>\<open>from\<close> and \<^verbatim>\<open>to\<close>.
\<close>

definition convert_from :: "'a::times \<Rightarrow> 'a \<Rightarrow> 'a" where
  "convert_from q u = q * u"

definition convert_to :: "'a::inverse \<Rightarrow> 'a \<Rightarrow> 'a" where
  "convert_to q u = q / u"

subsection \<open>Namespace \<^verbatim>\<open>Dune::units\<close>\<close>

text \<open>Lines 180 to 184.\<close>

definition MILLIDARCY :: double where "MILLIDARCY = dbl (986923 / 10 ^ 21)"
definition VISCOSITY_UNIT :: double where "VISCOSITY_UNIT = dbl (1 / 10 ^ 3)"
definition DAYS2SECONDS :: double where "DAYS2SECONDS = dbl 86400"
definition FEET :: double where "FEET = dbl (30479999798832 / 10 ^ 14)"
definition WELL_INDEX_UNIT :: double where
  "WELL_INDEX_UNIT = VISCOSITY_UNIT / (DAYS2SECONDS * dbl (10 ^ 5))"

text \<open>The constants by group, in the order of the header.\<close>

definition prefix_table :: "double list" where
  "prefix_table = [micro, milli, centi, deci, kilo, mega, giga]"

definition unit_table :: "double list" where
  "unit_table = [meter, inch, feet, second, minute, hour, day, year, kilogram, pound,
     gravity, Newton, lbf, Pascal, barsa, atm, psia, Pas, Poise, darcy]"

definition scratch_table :: "double list" where
  "scratch_table = [p_grad, area, flux, velocity, visc]"

definition units_table :: "double list" where
  "units_table = [MILLIDARCY, VISCOSITY_UNIT, DAYS2SECONDS, FEET, WELL_INDEX_UNIT]"

definition all_constants :: "double list" where
  "all_constants = prefix_table @ unit_table @ scratch_table @ units_table"

section \<open>Properties of the rounding\<close>

subsection \<open>Powers of two and the binary exponent\<close>

lemma pow2_pos: "0 < pow2 e"
  by (simp add: pow2_def)

lemma pow2_add: "pow2 (a + b) = pow2 a * pow2 b"
  by (simp add: pow2_def power_int_add)

lemma pow2_mono: "a \<le> b \<Longrightarrow> pow2 a \<le> pow2 b"
  by (simp add: pow2_def power_int_increasing)

lemma pow2_nat: "pow2 (int k) = 2 ^ k"
  by (simp add: pow2_def)

lemma pow2_diff: "pow2 (a - b) = pow2 a / pow2 b"
  by (simp add: pow2_def power_int_diff)

lemma pow2_plus1: "pow2 (e + 1) = 2 * pow2 e"
  by (simp add: pow2_def power_int_add)

lemma pow2_minus1: "pow2 (e - 1) = pow2 e / 2"
  by (simp add: pow2_def power_int_diff)

lemma floorlog_lower: "0 < n \<Longrightarrow> (2::rat) ^ floorlog 2 n \<le> 2 * of_nat n"
proof -
  assume n: "0 < n"
  then have pos: "0 < floorlog 2 n" by (simp add: floorlog_def)
  have "(2::nat) ^ (floorlog 2 n - 1) \<le> n" using floorlog_bounds [of n 2] n by simp
  then have "(2::nat) * 2 ^ (floorlog 2 n - 1) \<le> 2 * n" by simp
  then have "(2::nat) ^ floorlog 2 n \<le> 2 * n"
    using pos by (cases "floorlog 2 n") simp_all
  then have "(of_nat (2 ^ floorlog 2 n) :: rat) \<le> of_nat (2 * n)"
    by (rule of_nat_mono)
  then show ?thesis by simp
qed

lemma floorlog_upper: "0 < n \<Longrightarrow> (of_nat n :: rat) < 2 ^ floorlog 2 n"
proof -
  assume n: "0 < n"
  have "n < 2 ^ floorlog 2 n" using floorlog_bounds [of n 2] n by simp
  then have "(of_nat n :: rat) < of_nat (2 ^ floorlog 2 n)"
    by (simp only: of_nat_less_iff)
  then show ?thesis by simp
qed

lemma ilog2_bounds:
  assumes "0 < r"
  shows "pow2 (ilog2 r) \<le> r \<and> r < pow2 (ilog2 r + 1)"
proof -
  obtain p q where pq: "quotient_of r = (p, q)" by (cases "quotient_of r")
  have q: "0 < q" using pq quotient_of_denom_pos by blast
  have r: "r = of_int p / of_int q" using pq quotient_of_div by blast
  have p: "0 < p" using assms q r by (simp add: zero_less_divide_iff)
  define a where "a = floorlog 2 (nat p)"
  define b where "b = floorlog 2 (nat q)"
  define d where "d = int a - int b"
  have pa: "(2::rat) ^ a \<le> 2 * of_int p" "(of_int p :: rat) < 2 ^ a"
    using floorlog_lower [of "nat p"] floorlog_upper [of "nat p"] p by (simp_all add: a_def)
  have qb: "(2::rat) ^ b \<le> 2 * of_int q" "(of_int q :: rat) < 2 ^ b"
    using floorlog_lower [of "nat q"] floorlog_upper [of "nat q"] q by (simp_all add: b_def)
  have qpos: "(0::rat) < of_int q" using q by simp
  have d1: "pow2 d = 2 ^ a / 2 ^ b"
    by (simp add: d_def pow2_diff pow2_nat)
  have up: "r < pow2 (d + 1)"
  proof -
    have "of_int p * (2::rat) ^ b < 2 ^ a * (2 * of_int q)"
    proof -
      have "of_int p * (2::rat) ^ b \<le> of_int p * (2 * of_int q)"
        using qb(1) p by (intro mult_left_mono) simp_all
      also have "\<dots> < 2 ^ a * (2 * of_int q)"
        using pa(2) qpos by (intro mult_strict_right_mono) simp_all
      finally show ?thesis .
    qed
    then have "of_int p / of_int q < 2 * (2::rat) ^ a / 2 ^ b"
      using qpos by (simp add: field_simps)
    then show ?thesis by (simp add: r pow2_plus1 d1)
  qed
  have lo: "pow2 (d - 1) \<le> r"
  proof -
    have "(2::rat) ^ a * of_int q \<le> 2 * of_int p * 2 ^ b"
    proof -
      have "(2::rat) ^ a * of_int q \<le> 2 * of_int p * of_int q"
        using pa(1) qpos by (intro mult_right_mono) simp_all
      also have "\<dots> \<le> 2 * of_int p * 2 ^ b"
        using qb(2) p by (intro mult_left_mono) simp_all
      finally show ?thesis .
    qed
    then have "(2::rat) ^ a / 2 ^ b / 2 \<le> of_int p / of_int q"
      using qpos by (simp add: field_simps)
    then show ?thesis by (simp add: r pow2_minus1 d1)
  qed
  have il: "ilog2 r = (if pow2 d \<le> r then d else d - 1)"
    by (simp add: ilog2_def pq Let_def a_def b_def d_def)
  show ?thesis
    using up lo by (auto simp: il)
qed

lemma ilog2_unique:
  assumes "pow2 e \<le> r" "r < pow2 (e + 1)"
  shows "ilog2 r = e"
proof -
  have r: "0 < r" using assms(1) pow2_pos [of e] by simp
  note b = ilog2_bounds [OF r]
  have "\<not> ilog2 r < e"
  proof
    assume "ilog2 r < e"
    then have "pow2 (ilog2 r + 1) \<le> pow2 e" by (intro pow2_mono) simp
    then show False using b assms by simp
  qed
  moreover have "\<not> e < ilog2 r"
  proof
    assume "e < ilog2 r"
    then have "pow2 (e + 1) \<le> pow2 (ilog2 r)" by (intro pow2_mono) simp
    then show False using b assms by simp
  qed
  ultimately show ?thesis by simp
qed

subsection \<open>Rounding to an integer\<close>

lemma round_even_near:
  assumes "\<bar>x - of_int n\<bar> < 1 / 2"
  shows "round_even x = n"
proof -
  have "\<lfloor>x\<rfloor> = n \<or> \<lfloor>x\<rfloor> = n - 1"
  proof (cases "of_int n \<le> x")
    case True
    then have "x < of_int n + 1" using assms by simp
    then have "\<lfloor>x\<rfloor> = n" using True by (intro floor_unique) simp_all
    then show ?thesis ..
  next
    case False
    then have "of_int (n - 1) \<le> x" "x < of_int (n - 1) + 1" using assms by simp_all
    then have "\<lfloor>x\<rfloor> = n - 1" by (rule floor_unique)
    then show ?thesis ..
  qed
  then show ?thesis
  proof
    assume f: "\<lfloor>x\<rfloor> = n"
    then have "x - of_int \<lfloor>x\<rfloor> < 1 / 2" using assms by (simp add: abs_if split: if_splits)
    then show ?thesis by (simp add: round_even_def Let_def f)
  next
    assume f: "\<lfloor>x\<rfloor> = n - 1"
    then have "1 / 2 < x - of_int \<lfloor>x\<rfloor>" using assms by (simp add: abs_if split: if_splits)
    then show ?thesis by (simp add: round_even_def Let_def f)
  qed
qed

lemma round_even_ge:
  assumes "of_int n \<le> x"
  shows "n \<le> round_even x"
proof -
  have "n \<le> \<lfloor>x\<rfloor>" using assms by (simp add: le_floor_iff)
  then show ?thesis by (simp add: round_even_def Let_def)
qed

lemma round_even_lt:
  assumes "x < of_int k - 1 / 2"
  shows "round_even x < k"
proof -
  have "x < of_int k" using assms by simp
  then have f: "\<lfloor>x\<rfloor> \<le> k - 1" by (simp add: floor_less_iff)
  show ?thesis
  proof (cases "\<lfloor>x\<rfloor> = k - 1")
    case True
    then have "x - of_int \<lfloor>x\<rfloor> < 1 / 2" using assms by simp
    then show ?thesis using True by (simp add: round_even_def Let_def)
  next
    case False
    then have "\<lfloor>x\<rfloor> + 1 < k" using f by simp
    then show ?thesis by (simp add: round_even_def Let_def)
  qed
qed

lemma round_even_ge_even:
  assumes "of_int k - 1 / 2 \<le> x" "even k"
  shows "k \<le> round_even x"
proof (cases "of_int k \<le> x")
  case True
  then show ?thesis by (rule round_even_ge)
next
  case False
  then have "of_int (k - 1) \<le> x" "x < of_int (k - 1) + 1" using assms(1) by simp_all
  then have f: "\<lfloor>x\<rfloor> = k - 1" by (rule floor_unique)
  have o: "odd (k - 1)" using assms(2) by simp
  have "\<not> x - of_int (k - 1) < 1 / 2" using assms(1) by simp
  then show ?thesis using o by (simp add: round_even_def Let_def f)
qed

lemma round_even_error: "\<bar>of_int (round_even x) - x\<bar> \<le> 1 / 2"
proof -
  define f where "f = \<lfloor>x\<rfloor>"
  have f: "of_int f \<le> x" "x < of_int f + 1"
    using floor_correct [of x] by (simp_all add: f_def)
  consider "x - of_int f < 1 / 2" | "1 / 2 < x - of_int f" | "x - of_int f = 1 / 2"
    by linarith
  then show ?thesis
  proof cases
    case 1
    then have re: "round_even x = f" by (simp add: round_even_def Let_def f_def)
    show ?thesis unfolding re using 1 f by linarith
  next
    case 2
    then have re: "round_even x = f + 1" by (simp add: round_even_def Let_def f_def)
    have "\<bar>of_int f + 1 - x\<bar> \<le> 1 / 2" using 2 f by linarith
    then show ?thesis unfolding re by simp
  next
    case 3
    then have "round_even x = f \<or> round_even x = f + 1"
      by (simp add: round_even_def Let_def f_def)
    then show ?thesis
    proof
      assume re: "round_even x = f"
      show ?thesis unfolding re using 3 by linarith
    next
      assume re: "round_even x = f + 1"
      have "\<bar>of_int f + 1 - x\<bar> \<le> 1 / 2" using 3 by linarith
      then show ?thesis unfolding re by simp
    qed
  qed
qed

subsection \<open>Evaluating a rounding\<close>

text \<open>
  A rounding in the normal range is determined by the binary exponent \<open>e\<close> of the exact
  result and by an integer significand \<open>n\<close> within half a unit in the last place of it.
  The three rules for a literal, a product and a quotient reduce the evaluation of an
  operation on given doubles to comparisons of rationals.
\<close>

lemma pow2_overflow_bound: "pow2 1023 + pow2 969 \<le> pow2 1024"
proof -
  have "pow2 969 \<le> pow2 1023" by (intro pow2_mono) simp
  moreover have "pow2 1024 = 2 * pow2 1023" using pow2_plus1 [of 1023] by simp
  ultimately show ?thesis by simp
qed

lemma rnd_cert:
  assumes e: "pow2 e \<le> r" "r < pow2 (e + 1)" "- 1022 \<le> e" "e \<le> 1022"
    and m: "m = of_int n * pow2 (e - 52)" "\<bar>r - m\<bar> < pow2 (e - 53)"
  shows "rnd s r = Finite s m"
proof -
  have r: "0 < r" using e(1) pow2_pos [of e] by simp
  have il: "ilog2 r = e" using e(1,2) by (rule ilog2_unique)
  define u where "u = pow2 (e - 52)"
  have u: "0 < u" by (simp add: u_def pow2_pos)
  have half: "pow2 (e - 53) = u / 2"
    using pow2_minus1 [of "e - 52"] by (simp add: u_def)
  have "r / u - of_int n = (r - m) / u" using u by (simp add: m(1) u_def field_simps)
  then have "\<bar>r / u - of_int n\<bar> = \<bar>r - m\<bar> / u" using u by (simp add: abs_divide)
  also have "\<dots> < (u / 2) / u" using m(2) u by (simp add: half divide_strict_right_mono)
  also have "\<dots> = 1 / 2" using u by simp
  finally have n: "round_even (r / u) = n" by (rule round_even_near)
  have "m < r + pow2 (e - 53)" using m(2) by (simp add: abs_if split: if_splits)
  also have "\<dots> < pow2 (e + 1) + pow2 (e - 53)" using e(2) by simp
  also have "\<dots> \<le> pow2 1023 + pow2 969" using e(4) by (intro add_mono pow2_mono) simp_all
  also note pow2_overflow_bound
  finally have fin: "\<not> pow2 1024 \<le> m" by simp
  have mx: "max e (- 1022) = e" using e(3) by simp
  show ?thesis
    using r fin by (simp add: rnd_def il mx Let_def n m(1) flip: u_def)
qed

lemma dbl_cert:
  assumes "pow2 e \<le> \<bar>r\<bar>" "\<bar>r\<bar> < pow2 (e + 1)" "- 1022 \<le> e" "e \<le> 1022"
    and "m = of_int n * pow2 (e - 52)" "\<bar>\<bar>r\<bar> - m\<bar> < pow2 (e - 53)" "s = (r < 0)"
  shows "dbl r = Finite s m"
  unfolding dbl_def assms(7) using assms(1-6) by (rule rnd_cert)

lemma mul_cert:
  assumes "pow2 e \<le> a * b" "a * b < pow2 (e + 1)" "- 1022 \<le> e" "e \<le> 1022"
    and "m = of_int n * pow2 (e - 52)" "\<bar>a * b - m\<bar> < pow2 (e - 53)" "u = (s \<noteq> t)"
  shows "Finite s a * Finite t b = Finite u m"
  unfolding times_double_def dmul.simps assms(7) using assms(1-6) by (rule rnd_cert)

lemma div_cert:
  assumes "pow2 e \<le> a / b" "a / b < pow2 (e + 1)" "- 1022 \<le> e" "e \<le> 1022"
    and "m = of_int n * pow2 (e - 52)" "\<bar>a / b - m\<bar> < pow2 (e - 53)" "u = (s \<noteq> t)"
  shows "Finite s a / Finite t b = Finite u m"
proof -
  have "0 < a / b" using assms(1) pow2_pos [of e] by simp
  then have "b \<noteq> 0" by auto
  then show ?thesis
    unfolding divide_double_def assms(7) using rnd_cert [OF assms(1-6)] by simp
qed

subsection \<open>Overflow\<close>

text \<open>
  A rounding gives an infinity exactly from the magnitude \<open>2 ^ 1024 - 2 ^ 970\<close> on, the
  midpoint between the largest double and \<open>2 ^ 1024\<close>; it never gives NaN.
\<close>

lemma pow2_shift: "pow2 e = 2 ^ k * pow2 (e - int k)"
  using pow2_add [of "int k" "e - int k"] by (simp add: pow2_nat)

lemma pow2_threshold: "pow2 1024 - pow2 970 = (2 ^ 53 - 1 / 2) * pow2 971"
proof -
  have a: "pow2 1024 = pow2 53 * pow2 971" using pow2_add [of 53 971] by simp
  have b: "pow2 971 = 2 * pow2 970" using pow2_plus1 [of 970] by simp
  have c: "pow2 53 = 2 ^ 53" using pow2_nat [of 53] by simp
  show ?thesis unfolding a c by (simp add: b algebra_simps)
qed

lemma is_inf_rnd_iff: "is_inf (rnd s r) \<longleftrightarrow> pow2 1024 - pow2 970 \<le> r"
proof (cases "0 < r")
  case False
  have T: "0 < pow2 1024 - pow2 970"
    unfolding pow2_threshold using pow2_pos [of 971] by simp
  show ?thesis
  proof (cases "r = 0")
    case True
    then show ?thesis using T by (simp add: rnd_def)
  next
    case neg: False
    define u where "u = pow2 (max (ilog2 r) (- 1022) - 52)"
    have u: "0 < u" by (simp add: u_def pow2_pos)
    have "r / u < 0" using False neg u by (simp add: divide_neg_pos)
    also have "(0::rat) < of_int 1 - 1 / 2" by simp
    finally have "round_even (r / u) < 1" by (rule round_even_lt)
    then have "of_int (round_even (r / u)) * u \<le> 0"
      using u by (simp add: mult_le_0_iff)
    then have "\<not> pow2 1024 \<le> of_int (round_even (r / u)) * u"
      using pow2_pos [of 1024] by simp
    then show ?thesis using neg False T by (simp add: rnd_def Let_def flip: u_def)
  qed
next
  case True
  define e where "e = max (ilog2 r) (- 1022)"
  define u where "u = pow2 (e - 52)"
  define n where "n = round_even (r / u)"
  have u: "0 < u" by (simp add: u_def pow2_pos)
  note b = ilog2_bounds [OF True]
  have up: "r < pow2 (e + 1)"
  proof -
    have "pow2 (ilog2 r + 1) \<le> pow2 (e + 1)" by (intro pow2_mono) (simp add: e_def)
    then show ?thesis using b by simp
  qed
  have ue: "pow2 (e + 1) = 2 ^ 53 * u" "pow2 e = 2 ^ 52 * u"
    using pow2_shift [of "e + 1" 53] pow2_shift [of e 52] by (simp_all add: u_def)
  have r: "rnd s r = (if pow2 1024 \<le> of_int n * u then Infinity s else Finite s (of_int n * u))"
    using True by (simp add: rnd_def Let_def n_def u_def e_def)
  show ?thesis
  proof
    assume inf: "is_inf (rnd s r)"
    show "pow2 1024 - pow2 970 \<le> r"
    proof (rule ccontr)
      assume "\<not> pow2 1024 - pow2 970 \<le> r"
      then have lt: "r < (2 ^ 53 - 1 / 2) * pow2 971" by (simp add: pow2_threshold)
      have "of_int n * u < pow2 1024"
      proof (cases "e \<le> 1022")
        case True
        have "r / u < 2 ^ 53" using up u by (simp add: ue divide_less_eq)
        also have "(2::rat) ^ 53 < of_int (2 ^ 53 + 1) - 1 / 2" by simp
        finally have "n < 2 ^ 53 + 1" unfolding n_def by (rule round_even_lt)
        then have "n \<le> 2 ^ 53" by simp
        then have "(of_int n :: rat) \<le> of_int (2 ^ 53)" by (simp only: of_int_le_iff)
        then have "of_int n * u \<le> 2 ^ 53 * u" using u by (simp add: mult_right_mono)
        also have "\<dots> = pow2 (e + 1)" by (simp add: ue)
        also have "\<dots> \<le> pow2 1023" using True by (intro pow2_mono) simp
        also have "\<dots> < pow2 1024" using pow2_plus1 [of 1023] pow2_pos [of 1023] by simp
        finally show ?thesis .
      next
        case False
        then have ee: "e = ilog2 r" by (simp add: e_def)
        have "pow2 e \<le> r" using b by (simp add: ee)
        also have "r < pow2 1024 - pow2 970" using lt by (simp add: pow2_threshold)
        also have "\<dots> < pow2 1024" using pow2_pos [of 970] by simp
        finally have "pow2 e < pow2 1024" .
        then have "e < 1024" using pow2_mono [of 1024 e] by (cases "e < 1024") simp_all
        then have e: "e = 1023" using False by simp
        have u1: "u = pow2 971" by (simp add: u_def e)
        have "r / u < 2 ^ 53 - 1 / 2" using lt u by (simp add: u1 divide_less_eq)
        then have "r / u < of_int (2 ^ 53) - 1 / 2" by simp
        then have "n < 2 ^ 53" unfolding n_def by (rule round_even_lt)
        then have "(of_int n :: rat) < of_int (2 ^ 53)" by (simp only: of_int_less_iff)
        then have "of_int n * u < 2 ^ 53 * u" using u by (simp add: mult_strict_right_mono)
        also have "\<dots> = pow2 1024" using pow2_add [of 53 971] pow2_nat [of 53] by (simp add: u1)
        finally show ?thesis .
      qed
      then show False using inf by (simp add: r)
    qed
  next
    assume ge: "pow2 1024 - pow2 970 \<le> r"
    have "pow2 1023 \<le> pow2 1024 - pow2 970"
    proof -
      have "pow2 970 \<le> pow2 1023" by (intro pow2_mono) simp
      then show ?thesis using pow2_plus1 [of 1023] by simp
    qed
    then have "pow2 1023 < pow2 (ilog2 r + 1)" using ge b by simp
    then have "1023 < ilog2 r + 1" using pow2_mono [of "ilog2 r + 1" 1023] by (cases "1023 < ilog2 r + 1") simp_all
    then have e1: "1023 \<le> e" and ee: "e = ilog2 r" by (simp_all add: e_def)
    have "pow2 1024 \<le> of_int n * u"
    proof (cases "e = 1023")
      case True
      have u1: "u = pow2 971" by (simp add: u_def True)
      have "2 ^ 53 - 1 / 2 \<le> r / u" using ge u by (simp add: pow2_threshold u1 le_divide_eq)
      then have "of_int (2 ^ 53) - 1 / 2 \<le> r / u" by simp
      then have "2 ^ 53 \<le> n" unfolding n_def by (rule round_even_ge_even) simp
      then have "(of_int (2 ^ 53) :: rat) \<le> of_int n" by (simp only: of_int_le_iff)
      then have "2 ^ 53 * u \<le> of_int n * u" using u by (simp add: mult_right_mono)
      moreover have "2 ^ 53 * u = pow2 1024" using pow2_add [of 53 971] pow2_nat [of 53] by (simp add: u1)
      ultimately show ?thesis by simp
    next
      case False
      then have e2: "1024 \<le> e" using e1 by simp
      have "pow2 e \<le> r" using b by (simp add: ee)
      then have "2 ^ 52 \<le> r / u" using u by (simp add: ue le_divide_eq)
      then have "of_int (2 ^ 52) \<le> r / u" by simp
      then have "2 ^ 52 \<le> n" unfolding n_def by (rule round_even_ge)
      then have "(of_int (2 ^ 52) :: rat) \<le> of_int n" by (simp only: of_int_le_iff)
      then have "2 ^ 52 * u \<le> of_int n * u" using u by (simp add: mult_right_mono)
      moreover have "pow2 1024 \<le> pow2 e" using e2 by (rule pow2_mono)
      ultimately show ?thesis by (simp add: ue)
    qed
    then show "is_inf (rnd s r)" by (simp add: r)
  qed
qed

lemma rnd_not_nan: "\<not> is_nan (rnd s r)"
  by (simp add: rnd_def Let_def)

subsection \<open>Round trips of 0, 1 and -1\<close>

text \<open>
  A magnitude that rounding leaves unchanged is a double.  Multiplying 1.0 or -1.0 by a
  nonzero double and dividing by it again is exact, and so is the round trip of 0.0.
\<close>

lemma rnd_sign: "rnd s r = Finite s m \<Longrightarrow> rnd t r = Finite t m"
  by (auto simp: rnd_def Let_def split: if_splits)

lemma rnd_one: "rnd s 1 = Finite s 1"
  by (rule rnd_cert [where e = 0 and n = "2 ^ 52"]) (simp_all add: pow2_def)

lemma roundtrip_zero:
  assumes "m \<noteq> 0"
  shows "deq (convert_to (convert_from (dbl 0) (Finite t m)) (Finite t m)) (dbl 0)"
  using assms
  by (simp add: convert_to_def convert_from_def times_double_def divide_double_def dbl_def
      rnd_def)

lemma roundtrip_one:
  assumes "rnd False m = Finite False m" "m \<noteq> 0"
  shows "deq (convert_to (convert_from (dbl 1) (Finite t m)) (Finite t m)) (dbl 1)"
proof -
  have a: "rnd (False \<noteq> t) m = Finite (False \<noteq> t) m" using assms(1) by (rule rnd_sign)
  show ?thesis
    using assms(2) a
    by (simp add: convert_to_def convert_from_def times_double_def divide_double_def dbl_def
        rnd_one)
qed

lemma roundtrip_minus_one:
  assumes "rnd False m = Finite False m" "m \<noteq> 0"
  shows "deq (convert_to (convert_from (dbl (- 1)) (Finite t m)) (Finite t m)) (dbl (- 1))"
proof -
  have a: "rnd (True \<noteq> t) m = Finite (True \<noteq> t) m" using assms(1) by (rule rnd_sign)
  show ?thesis
    using assms(2) a
    by (simp add: convert_to_def convert_from_def times_double_def divide_double_def dbl_def
        rnd_one)
qed

subsection \<open>The error of a round trip\<close>

text \<open>
  In the normal range a rounding changes its argument by a relative error of at most
  \<open>2 ^ -53\<close>; the product and the quotient of a round trip are two such roundings.
\<close>

lemma rnd_error:
  assumes "pow2 (- 1022) \<le> r" "r < pow2 1024 - pow2 970"
  shows "\<exists>m. rnd s r = Finite s m \<and> \<bar>m - r\<bar> \<le> r / 2 ^ 53"
proof -
  have r: "0 < r" using assms(1) pow2_pos [of "- 1022"] by simp
  note b = ilog2_bounds [OF r]
  define e where "e = ilog2 r"
  define u where "u = pow2 (e - 52)"
  define n where "n = round_even (r / u)"
  have u: "0 < u" by (simp add: u_def pow2_pos)
  have "pow2 (- 1022) < pow2 (e + 1)" using assms(1) b by (simp add: e_def)
  then have "- 1022 < e + 1" using pow2_mono [of "e + 1" "- 1022"] by (cases "- 1022 < e + 1") simp_all
  then have mx: "max (ilog2 r) (- 1022) = e" by (simp add: e_def)
  have "\<not> is_inf (rnd s r)" using assms(2) by (simp add: is_inf_rnd_iff)
  then have v: "rnd s r = Finite s (of_int n * u)"
    using r by (simp add: rnd_def Let_def mx n_def u_def split: if_splits)
  have "\<bar>of_int n * u - r\<bar> = \<bar>of_int n - r / u\<bar> * u"
  proof -
    have "of_int n * u - r = (of_int n - r / u) * u" using u by (simp add: field_simps)
    then show ?thesis using u by (simp add: abs_mult)
  qed
  also have "\<dots> \<le> 1 / 2 * u"
    using round_even_error [of "r / u"] u unfolding n_def by (intro mult_right_mono) simp_all
  also have "\<dots> = pow2 e / 2 ^ 53"
    using pow2_shift [of e 52] by (simp add: u_def)
  also have "\<dots> \<le> r / 2 ^ 53"
    using b by (simp add: e_def divide_right_mono)
  finally show ?thesis using v by blast
qed

lemma roundtrip_error:
  assumes b: "0 < b"
    and p: "pow2 (- 1022) \<le> a * b" "a * b < pow2 1023"
    and q: "pow2 (- 1021) \<le> a" "a < pow2 1023"
  shows "\<exists>m. convert_to (convert_from (Finite s a) (Finite t b)) (Finite t b) = Finite s m \<and>
    \<bar>m - a\<bar> \<le> a * (1 / 2 ^ 52 + 1 / 2 ^ 106)"
proof -
  have a: "0 < a" using q(1) pow2_pos [of "- 1021"] by simp
  have t1: "pow2 1023 \<le> pow2 1024 - pow2 970"
  proof -
    have "pow2 970 \<le> pow2 1023" by (intro pow2_mono) simp
    then show ?thesis using pow2_plus1 [of 1023] by simp
  qed
  obtain m1 where m1: "rnd (s \<noteq> t) (a * b) = Finite (s \<noteq> t) m1"
    and e1: "\<bar>m1 - a * b\<bar> \<le> a * b / 2 ^ 53"
    using rnd_error [of "a * b" "s \<noteq> t"] p t1 by auto
  define r where "r = m1 / b"
  have "r - a = (m1 - a * b) / b" using b by (simp add: r_def field_simps)
  then have "\<bar>r - a\<bar> = \<bar>m1 - a * b\<bar> / b" using b by (simp add: abs_divide)
  also have "\<dots> \<le> (a * b / 2 ^ 53) / b" using e1 b by (intro divide_right_mono) simp_all
  also have "\<dots> = a / 2 ^ 53" using b by simp
  finally have e2: "\<bar>r - a\<bar> \<le> a / 2 ^ 53" .
  have lo: "pow2 (- 1022) \<le> r"
  proof -
    have "pow2 (- 1021) = 2 * pow2 (- 1022)" using pow2_plus1 [of "- 1022"] by simp
    then have "pow2 (- 1022) \<le> a / 2" using q(1) by simp
    also have "\<dots> \<le> a - a / 2 ^ 53" using a by (simp add: field_simps)
    also have "\<dots> \<le> r" using e2 by linarith
    finally show ?thesis .
  qed
  have hi: "r < pow2 1024 - pow2 970"
  proof -
    have "r \<le> a + a / 2 ^ 53" using e2 by linarith
    also have "\<dots> = a * (1 + 1 / 2 ^ 53)" by (simp add: algebra_simps)
    also have "\<dots> < pow2 1023 * (1 + 1 / 2 ^ 53)" using q(2) by (intro mult_strict_right_mono) simp_all
    also have "\<dots> = pow2 1023 + pow2 970"
      using pow2_shift [of 1023 53] by (simp add: algebra_simps)
    also have "\<dots> \<le> pow2 1024 - pow2 970"
    proof -
      have "pow2 970 + pow2 970 = pow2 971" using pow2_plus1 [of 970] by simp
      moreover have "pow2 971 \<le> pow2 1023" by (intro pow2_mono) simp
      ultimately show ?thesis using pow2_plus1 [of 1023] by simp
    qed
    finally show ?thesis .
  qed
  obtain m2 where m2: "rnd s r = Finite s m2" and e3: "\<bar>m2 - r\<bar> \<le> r / 2 ^ 53"
    using rnd_error [OF lo hi, of s] by auto
  have r0: "0 < r" using lo pow2_pos [of "- 1022"] by simp
  have "convert_to (convert_from (Finite s a) (Finite t b)) (Finite t b) = Finite s m2"
    using b m1 m2 by (cases s; cases t) (simp_all add: convert_to_def convert_from_def
        times_double_def divide_double_def r_def)
  moreover have "\<bar>m2 - a\<bar> \<le> a * (1 / 2 ^ 52 + 1 / 2 ^ 106)"
  proof -
    have "r \<le> a + a / 2 ^ 53" using e2 by linarith
    then have "r / 2 ^ 53 \<le> (a + a / 2 ^ 53) / 2 ^ 53" by (simp add: divide_right_mono)
    then have "\<bar>m2 - r\<bar> \<le> (a + a / 2 ^ 53) / 2 ^ 53" using e3 by simp
    then have "\<bar>m2 - a\<bar> \<le> (a + a / 2 ^ 53) / 2 ^ 53 + a / 2 ^ 53"
      using e2 by linarith
    also have "\<dots> = a * (1 / 2 ^ 52 + 1 / 2 ^ 106)" by (simp add: algebra_simps)
    finally show ?thesis .
  qed
  ultimately show ?thesis by blast
qed


section \<open>The values of the constants\<close>

text \<open>
  Each constant is evaluated operation by operation; every rounding is justified by
  its binary exponent \<open>e\<close> and its 53-bit significand \<open>n\<close>.
\<close>

lemma micro_val: "micro = Finite False (4722366482869645 / 2 ^ 72)"
  unfolding micro_def
  by (rule dbl_cert [where e = "-20" and n = 4722366482869645]) (simp_all add: pow2_def)

lemma milli_val: "milli = Finite False (1152921504606847 / 2 ^ 60)"
  unfolding milli_def
  by (rule dbl_cert [where e = "-10" and n = 4611686018427388]) (simp_all add: pow2_def)

lemma centi_val: "centi = Finite False (5764607523034235 / 2 ^ 59)"
  unfolding centi_def
  by (rule dbl_cert [where e = "-7" and n = 5764607523034235]) (simp_all add: pow2_def)

lemma deci_val: "deci = Finite False (3602879701896397 / 2 ^ 55)"
  unfolding deci_def
  by (rule dbl_cert [where e = "-4" and n = 7205759403792794]) (simp_all add: pow2_def)

lemma kilo_val: "kilo = Finite False 1000"
  unfolding kilo_def
  by (rule dbl_cert [where e = 9 and n = 8796093022208000]) (simp_all add: pow2_def)

lemma mega_val: "mega = Finite False 1000000"
  unfolding mega_def
  by (rule dbl_cert [where e = 19 and n = 8589934592000000]) (simp_all add: pow2_def)

lemma giga_val: "giga = Finite False 1000000000"
  unfolding giga_def
  by (rule dbl_cert [where e = 29 and n = 8388608000000000]) (simp_all add: pow2_def)

lemma meter_val: "meter = Finite False 1"
  unfolding meter_def
  by (rule dbl_cert [where e = 0 and n = 4503599627370496]) (simp_all add: pow2_def)

lemma inch_val: "inch = Finite False (7321051554253479 / 2 ^ 58)"
proof -
  have s1: "dbl (254 / 100) = Finite False (2859785763380265 / 2 ^ 50)"
    by (rule dbl_cert [where e = 1 and n = 5719571526760530]) (simp_all add: pow2_def)
  have s2: "Finite False (2859785763380265 / 2 ^ 50) * Finite False (5764607523034235 / 2 ^ 59)
      = Finite False (7321051554253479 / 2 ^ 58)"
    by (rule mul_cert [where e = "-6" and n = 7321051554253479]) (simp_all add: pow2_def)
  have s3: "Finite False (7321051554253479 / 2 ^ 58) * Finite False 1
      = Finite False (7321051554253479 / 2 ^ 58)"
    by (rule mul_cert [where e = "-6" and n = 7321051554253479]) (simp_all add: pow2_def)
  show ?thesis
    by (simp only: inch_def square_def cubic_def centi_val meter_val s1 s2 s3)
qed

lemma feet_val: "feet = Finite False (5490788665690109 / 2 ^ 54)"
proof -
  have s1: "dbl 12 = Finite False 12"
    by (rule dbl_cert [where e = 3 and n = 6755399441055744]) (simp_all add: pow2_def)
  have s2: "Finite False 12 * Finite False (7321051554253479 / 2 ^ 58)
      = Finite False (5490788665690109 / 2 ^ 54)"
    by (rule mul_cert [where e = "-2" and n = 5490788665690109]) (simp_all add: pow2_def)
  show ?thesis
    by (simp only: feet_def square_def cubic_def inch_val s1 s2)
qed

lemma second_val: "second = Finite False 1"
  unfolding second_def
  by (rule dbl_cert [where e = 0 and n = 4503599627370496]) (simp_all add: pow2_def)

lemma minute_val: "minute = Finite False 60"
proof -
  have s1: "dbl 60 = Finite False 60"
    by (rule dbl_cert [where e = 5 and n = 8444249301319680]) (simp_all add: pow2_def)
  have s2: "Finite False 60 * Finite False 1 = Finite False 60"
    by (rule mul_cert [where e = 5 and n = 8444249301319680]) (simp_all add: pow2_def)
  show ?thesis
    by (simp only: minute_def square_def cubic_def second_val s1 s2)
qed

lemma hour_val: "hour = Finite False 3600"
proof -
  have s1: "dbl 60 = Finite False 60"
    by (rule dbl_cert [where e = 5 and n = 8444249301319680]) (simp_all add: pow2_def)
  have s2: "Finite False 60 * Finite False 60 = Finite False 3600"
    by (rule mul_cert [where e = 11 and n = 7916483719987200]) (simp_all add: pow2_def)
  show ?thesis
    by (simp only: hour_def square_def cubic_def minute_val s1 s2)
qed

lemma day_val: "day = Finite False 86400"
proof -
  have s1: "dbl 24 = Finite False 24"
    by (rule dbl_cert [where e = 4 and n = 6755399441055744]) (simp_all add: pow2_def)
  have s2: "Finite False 24 * Finite False 3600 = Finite False 86400"
    by (rule mul_cert [where e = 16 and n = 5937362789990400]) (simp_all add: pow2_def)
  show ?thesis
    by (simp only: day_def square_def cubic_def hour_val s1 s2)
qed

lemma year_val: "year = Finite False 31536000"
proof -
  have s1: "dbl 365 = Finite False 365"
    by (rule dbl_cert [where e = 8 and n = 6421147906211840]) (simp_all add: pow2_def)
  have s2: "Finite False 365 * Finite False 86400 = Finite False 31536000"
    by (rule mul_cert [where e = 24 and n = 8465380540416000]) (simp_all add: pow2_def)
  show ?thesis
    by (simp only: year_def square_def cubic_def day_val s1 s2)
qed

lemma kilogram_val: "kilogram = Finite False 1"
  unfolding kilogram_def
  by (rule dbl_cert [where e = 0 and n = 4503599627370496]) (simp_all add: pow2_def)

lemma pound_val: "pound = Finite False (8171193714040401 / 2 ^ 54)"
proof -
  have s1: "dbl (45359237 / 10 ^ 8) = Finite False (8171193714040401 / 2 ^ 54)"
    by (rule dbl_cert [where e = "-2" and n = 8171193714040401]) (simp_all add: pow2_def)
  have s2: "Finite False (8171193714040401 / 2 ^ 54) * Finite False 1
      = Finite False (8171193714040401 / 2 ^ 54)"
    by (rule mul_cert [where e = "-2" and n = 8171193714040401]) (simp_all add: pow2_def)
  show ?thesis
    by (simp only: pound_def square_def cubic_def kilogram_val s1 s2)
qed

lemma gravity_val: "gravity = Finite False (5520653160719109 / 2 ^ 49)"
proof -
  have s1: "dbl (980665 / 10 ^ 5) = Finite False (5520653160719109 / 2 ^ 49)"
    by (rule dbl_cert [where e = 3 and n = 5520653160719109]) (simp_all add: pow2_def)
  have s2: "Finite False (5520653160719109 / 2 ^ 49) * Finite False 1
      = Finite False (5520653160719109 / 2 ^ 49)"
    by (rule mul_cert [where e = 3 and n = 5520653160719109]) (simp_all add: pow2_def)
  have s3: "Finite False 1 * Finite False 1 = Finite False 1"
    by (rule mul_cert [where e = 0 and n = 4503599627370496]) (simp_all add: pow2_def)
  have s4: "Finite False (5520653160719109 / 2 ^ 49) / Finite False 1
      = Finite False (5520653160719109 / 2 ^ 49)"
    by (rule div_cert [where e = 3 and n = 5520653160719109]) (simp_all add: pow2_def)
  show ?thesis
    by (simp only: gravity_def square_def cubic_def meter_val second_val s1 s2 s3 s4)
qed

lemma Newton_val: "Newton = Finite False 1"
proof -
  have s1: "Finite False 1 * Finite False 1 = Finite False 1"
    by (rule mul_cert [where e = 0 and n = 4503599627370496]) (simp_all add: pow2_def)
  have s2: "Finite False 1 / Finite False 1 = Finite False 1"
    by (rule div_cert [where e = 0 and n = 4503599627370496]) (simp_all add: pow2_def)
  show ?thesis
    by (simp only: Newton_def square_def cubic_def kilogram_val meter_val second_val s1 s2)
qed

lemma lbf_val: "lbf = Finite False (5008252302237143 / 2 ^ 50)"
proof -
  have s1: "Finite False (8171193714040401 / 2 ^ 54) * Finite False (5520653160719109 / 2 ^ 49)
      = Finite False (5008252302237143 / 2 ^ 50)"
    by (rule mul_cert [where e = 2 and n = 5008252302237143]) (simp_all add: pow2_def)
  show ?thesis
    by (simp only: lbf_def square_def cubic_def gravity_val pound_val s1)
qed

lemma Pascal_val: "Pascal = Finite False 1"
proof -
  have s1: "Finite False 1 * Finite False 1 = Finite False 1"
    by (rule mul_cert [where e = 0 and n = 4503599627370496]) (simp_all add: pow2_def)
  have s2: "Finite False 1 / Finite False 1 = Finite False 1"
    by (rule div_cert [where e = 0 and n = 4503599627370496]) (simp_all add: pow2_def)
  show ?thesis
    by (simp only: Pascal_def square_def cubic_def Newton_val meter_val s1 s2)
qed

lemma barsa_val: "barsa = Finite False 100000"
proof -
  have s1: "dbl 100000 = Finite False 100000"
    by (rule dbl_cert [where e = 16 and n = 6871947673600000]) (simp_all add: pow2_def)
  have s2: "Finite False 100000 * Finite False 1 = Finite False 100000"
    by (rule mul_cert [where e = 16 and n = 6871947673600000]) (simp_all add: pow2_def)
  show ?thesis
    by (simp only: barsa_def square_def cubic_def Pascal_val s1 s2)
qed

lemma atm_val: "atm = Finite False 101325"
proof -
  have s1: "dbl 101325 = Finite False 101325"
    by (rule dbl_cert [where e = 16 and n = 6963000980275200]) (simp_all add: pow2_def)
  have s2: "Finite False 101325 * Finite False 1 = Finite False 101325"
    by (rule mul_cert [where e = 16 and n = 6963000980275200]) (simp_all add: pow2_def)
  show ?thesis
    by (simp only: atm_def square_def cubic_def Pascal_val s1 s2)
qed

lemma psia_val: "psia = Finite False (7580865814531991 / 2 ^ 40)"
proof -
  have s1: "Finite False (7321051554253479 / 2 ^ 58) * Finite False (7321051554253479 / 2 ^ 58)
      = Finite False (1487637675824307 / 2 ^ 61)"
    by (rule mul_cert [where e = "-11" and n = 5950550703297228]) (simp_all add: pow2_def)
  have s2: "Finite False (5008252302237143 / 2 ^ 50) / Finite False (1487637675824307 / 2 ^ 61)
      = Finite False (7580865814531991 / 2 ^ 40)"
    by (rule div_cert [where e = 12 and n = 7580865814531991]) (simp_all add: pow2_def)
  show ?thesis
    by (simp only: psia_def square_def cubic_def inch_val lbf_val s1 s2)
qed

lemma Pas_val: "Pas = Finite False 1"
proof -
  have s1: "Finite False 1 * Finite False 1 = Finite False 1"
    by (rule mul_cert [where e = 0 and n = 4503599627370496]) (simp_all add: pow2_def)
  show ?thesis
    by (simp only: Pas_def square_def cubic_def Pascal_val second_val s1)
qed

lemma Poise_val: "Poise = Finite False (3602879701896397 / 2 ^ 55)"
proof -
  have s1: "Finite False (3602879701896397 / 2 ^ 55) * Finite False 1
      = Finite False (3602879701896397 / 2 ^ 55)"
    by (rule mul_cert [where e = "-4" and n = 7205759403792794]) (simp_all add: pow2_def)
  show ?thesis
    by (simp only: Poise_def square_def cubic_def Pas_val deci_val s1)
qed

lemma p_grad_val: "p_grad = Finite False 10132500"
proof -
  have s1: "Finite False (5764607523034235 / 2 ^ 59) * Finite False 1
      = Finite False (5764607523034235 / 2 ^ 59)"
    by (rule mul_cert [where e = "-7" and n = 5764607523034235]) (simp_all add: pow2_def)
  have s2: "Finite False 101325 / Finite False (5764607523034235 / 2 ^ 59)
      = Finite False 10132500"
    by (rule div_cert [where e = 23 and n = 5439844515840000]) (simp_all add: pow2_def)
  show ?thesis
    by (simp only: p_grad_def square_def cubic_def atm_val centi_val meter_val s1 s2)
qed

lemma area_val: "area = Finite False (7378697629483821 / 2 ^ 66)"
proof -
  have s1: "Finite False (5764607523034235 / 2 ^ 59) * Finite False 1
      = Finite False (5764607523034235 / 2 ^ 59)"
    by (rule mul_cert [where e = "-7" and n = 5764607523034235]) (simp_all add: pow2_def)
  have s2: "Finite False (5764607523034235 / 2 ^ 59) * Finite False (5764607523034235 / 2 ^ 59)
      = Finite False (7378697629483821 / 2 ^ 66)"
    by (rule mul_cert [where e = "-14" and n = 7378697629483821]) (simp_all add: pow2_def)
  show ?thesis
    by (simp only: area_def square_def cubic_def centi_val meter_val s1 s2)
qed

lemma flux_val: "flux = Finite False (2361183241434823 / 2 ^ 71)"
proof -
  have s1: "Finite False (5764607523034235 / 2 ^ 59) * Finite False 1
      = Finite False (5764607523034235 / 2 ^ 59)"
    by (rule mul_cert [where e = "-7" and n = 5764607523034235]) (simp_all add: pow2_def)
  have s2: "Finite False (5764607523034235 / 2 ^ 59) * Finite False (5764607523034235 / 2 ^ 59)
      = Finite False (7378697629483821 / 2 ^ 66)"
    by (rule mul_cert [where e = "-14" and n = 7378697629483821]) (simp_all add: pow2_def)
  have s3: "Finite False (7378697629483821 / 2 ^ 66) * Finite False (5764607523034235 / 2 ^ 59)
      = Finite False (2361183241434823 / 2 ^ 71)"
    by (rule mul_cert [where e = "-20" and n = 4722366482869646]) (simp_all add: pow2_def)
  have s4: "Finite False (2361183241434823 / 2 ^ 71) / Finite False 1
      = Finite False (2361183241434823 / 2 ^ 71)"
    by (rule div_cert [where e = "-20" and n = 4722366482869646]) (simp_all add: pow2_def)
  show ?thesis
    by (simp only: flux_def square_def cubic_def centi_val meter_val second_val s1 s2 s3 s4)
qed

lemma velocity_val: "velocity = Finite False (1441151880758559 / 2 ^ 57)"
proof -
  have s1: "Finite False (2361183241434823 / 2 ^ 71) / Finite False (7378697629483821 / 2 ^ 66)
      = Finite False (1441151880758559 / 2 ^ 57)"
    by (rule div_cert [where e = "-7" and n = 5764607523034236]) (simp_all add: pow2_def)
  show ?thesis
    by (simp only: velocity_def square_def cubic_def area_val flux_val s1)
qed

lemma visc_val: "visc = Finite False (1152921504606847 / 2 ^ 60)"
proof -
  have s1: "Finite False (5764607523034235 / 2 ^ 59) * Finite False (3602879701896397 / 2 ^ 55)
      = Finite False (1152921504606847 / 2 ^ 60)"
    by (rule mul_cert [where e = "-10" and n = 4611686018427388]) (simp_all add: pow2_def)
  show ?thesis
    by (simp only: visc_def square_def cubic_def Poise_val centi_val s1)
qed

lemma darcy_val: "darcy = Finite False (1221751827570077 / 2 ^ 90)"
proof -
  have s1: "Finite False (1441151880758559 / 2 ^ 57) * Finite False (1152921504606847 / 2 ^ 60)
      = Finite False (2951479051793529 / 2 ^ 68)"
    by (rule mul_cert [where e = "-17" and n = 5902958103587058]) (simp_all add: pow2_def)
  have s2: "Finite False (2951479051793529 / 2 ^ 68) / Finite False 10132500
      = Finite False (1221751827570077 / 2 ^ 90)"
    by (rule div_cert [where e = "-40" and n = 4887007310280308]) (simp_all add: pow2_def)
  show ?thesis
    by (simp only: darcy_def square_def cubic_def p_grad_val velocity_val visc_val s1 s2)
qed

lemma MILLIDARCY_val: "MILLIDARCY = Finite False (5004294133316179 / 2 ^ 102)"
  unfolding MILLIDARCY_def
  by (rule dbl_cert [where e = "-50" and n = 5004294133316179]) (simp_all add: pow2_def)

lemma VISCOSITY_UNIT_val: "VISCOSITY_UNIT = Finite False (1152921504606847 / 2 ^ 60)"
  unfolding VISCOSITY_UNIT_def
  by (rule dbl_cert [where e = "-10" and n = 4611686018427388]) (simp_all add: pow2_def)

lemma DAYS2SECONDS_val: "DAYS2SECONDS = Finite False 86400"
  unfolding DAYS2SECONDS_def
  by (rule dbl_cert [where e = 16 and n = 5937362789990400]) (simp_all add: pow2_def)

lemma FEET_val: "FEET = Finite False (686348578681363 / 2 ^ 51)"
  unfolding FEET_def
  by (rule dbl_cert [where e = "-2" and n = 5490788629450904]) (simp_all add: pow2_def)

lemma WELL_INDEX_UNIT_val: "WELL_INDEX_UNIT = Finite False (4584963108464371 / 2 ^ 95)"
proof -
  have s1: "dbl (10 ^ 5) = Finite False 100000"
    by (rule dbl_cert [where e = 16 and n = 6871947673600000]) (simp_all add: pow2_def)
  have s2: "Finite False 86400 * Finite False 100000 = Finite False 8640000000"
    by (rule mul_cert [where e = 33 and n = 4529848320000000]) (simp_all add: pow2_def)
  have s3: "Finite False (1152921504606847 / 2 ^ 60) / Finite False 8640000000
      = Finite False (4584963108464371 / 2 ^ 95)"
    by (rule div_cert [where e = "-43" and n = 4584963108464371]) (simp_all add: pow2_def)
  show ?thesis
    by (simp only: WELL_INDEX_UNIT_def square_def cubic_def DAYS2SECONDS_val VISCOSITY_UNIT_val s1 s2 s3)
qed


section \<open>Further evaluations\<close>

lemma lit_1: "dbl 1 = Finite False 1"
  by (rule dbl_cert [where e = 0 and n = 4503599627370496]) (simp_all add: pow2_def)

lemma from_1_meter: "convert_from (dbl 1) meter = Finite False 1"
proof -
  have s1: "dbl 1 = Finite False 1"
    by (rule dbl_cert [where e = 0 and n = 4503599627370496]) (simp_all add: pow2_def)
  have s2: "Finite False 1 * Finite False 1 = Finite False 1"
    by (rule mul_cert [where e = 0 and n = 4503599627370496]) (simp_all add: pow2_def)
  show ?thesis
    by (simp only: square_def cubic_def convert_from_def convert_to_def meter_val s1 s2)
qed

lemma from_1_second: "convert_from (dbl 1) second = Finite False 1"
proof -
  have s1: "dbl 1 = Finite False 1"
    by (rule dbl_cert [where e = 0 and n = 4503599627370496]) (simp_all add: pow2_def)
  have s2: "Finite False 1 * Finite False 1 = Finite False 1"
    by (rule mul_cert [where e = 0 and n = 4503599627370496]) (simp_all add: pow2_def)
  show ?thesis
    by (simp only: square_def cubic_def convert_from_def convert_to_def second_val s1 s2)
qed

lemma from_1_kilogram: "convert_from (dbl 1) kilogram = Finite False 1"
proof -
  have s1: "dbl 1 = Finite False 1"
    by (rule dbl_cert [where e = 0 and n = 4503599627370496]) (simp_all add: pow2_def)
  have s2: "Finite False 1 * Finite False 1 = Finite False 1"
    by (rule mul_cert [where e = 0 and n = 4503599627370496]) (simp_all add: pow2_def)
  show ?thesis
    by (simp only: square_def cubic_def convert_from_def convert_to_def kilogram_val s1 s2)
qed

lemma lit_0_0254: "dbl (254 / 10 ^ 4) = Finite False (3660525777126739 / 2 ^ 57)"
  by (rule dbl_cert [where e = "-6" and n = 7321051554253478]) (simp_all add: pow2_def)

lemma lit_0_3048: "dbl (3048 / 10 ^ 4) = Finite False (5490788665690109 / 2 ^ 54)"
  by (rule dbl_cert [where e = "-2" and n = 5490788665690109]) (simp_all add: pow2_def)

lemma lit_FEET: "dbl (30479999798832 / 10 ^ 14) = Finite False (686348578681363 / 2 ^ 51)"
  by (rule dbl_cert [where e = "-2" and n = 5490788629450904]) (simp_all add: pow2_def)

lemma lit_darcy: "dbl (9869232667160130 / 10 ^ 28) = Finite False (1221751827570077 / 2 ^ 90)"
  by (rule dbl_cert [where e = "-40" and n = 4887007310280308]) (simp_all add: pow2_def)

lemma lit_86400: "dbl 86400 = Finite False 86400"
  by (rule dbl_cert [where e = 16 and n = 5937362789990400]) (simp_all add: pow2_def)

lemma day_unfolded: "dbl 24 * (dbl 60 * (dbl 60 * second)) = Finite False 86400"
proof -
  have s1: "dbl 24 = Finite False 24"
    by (rule dbl_cert [where e = 4 and n = 6755399441055744]) (simp_all add: pow2_def)
  have s2: "dbl 60 = Finite False 60"
    by (rule dbl_cert [where e = 5 and n = 8444249301319680]) (simp_all add: pow2_def)
  have s3: "Finite False 60 * Finite False 1 = Finite False 60"
    by (rule mul_cert [where e = 5 and n = 8444249301319680]) (simp_all add: pow2_def)
  have s4: "Finite False 60 * Finite False 60 = Finite False 3600"
    by (rule mul_cert [where e = 11 and n = 7916483719987200]) (simp_all add: pow2_def)
  have s5: "Finite False 24 * Finite False 3600 = Finite False 86400"
    by (rule mul_cert [where e = 16 and n = 5937362789990400]) (simp_all add: pow2_def)
  show ?thesis
    by (simp only: square_def cubic_def convert_from_def convert_to_def second_val s1 s2 s3 s4 s5)
qed

lemma well_index_literals: "dbl (1 / 10 ^ 3) / dbl (864 * 10 ^ 7)
    = Finite False (4584963108464371 / 2 ^ 95)"
proof -
  have s1: "dbl (1 / 10 ^ 3) = Finite False (1152921504606847 / 2 ^ 60)"
    by (rule dbl_cert [where e = "-10" and n = 4611686018427388]) (simp_all add: pow2_def)
  have s2: "dbl (864 * 10 ^ 7) = Finite False 8640000000"
    by (rule dbl_cert [where e = 33 and n = 4529848320000000]) (simp_all add: pow2_def)
  have s3: "Finite False (1152921504606847 / 2 ^ 60) / Finite False 8640000000
      = Finite False (4584963108464371 / 2 ^ 95)"
    by (rule div_cert [where e = "-43" and n = 4584963108464371]) (simp_all add: pow2_def)
  show ?thesis
    by (simp only: square_def cubic_def convert_from_def convert_to_def s1 s2 s3)
qed

lemma square_3: "square (dbl 3) = Finite False 9"
proof -
  have s1: "dbl 3 = Finite False 3"
    by (rule dbl_cert [where e = 1 and n = 6755399441055744]) (simp_all add: pow2_def)
  have s2: "Finite False 3 * Finite False 3 = Finite False 9"
    by (rule mul_cert [where e = 3 and n = 5066549580791808]) (simp_all add: pow2_def)
  show ?thesis
    by (simp only: square_def cubic_def convert_from_def convert_to_def s1 s2)
qed

lemma lit_9: "dbl 9 = Finite False 9"
  by (rule dbl_cert [where e = 3 and n = 5066549580791808]) (simp_all add: pow2_def)

lemma cubic_2: "cubic (dbl 2) = Finite False 8"
proof -
  have s1: "dbl 2 = Finite False 2"
    by (rule dbl_cert [where e = 1 and n = 4503599627370496]) (simp_all add: pow2_def)
  have s2: "Finite False 2 * Finite False 2 = Finite False 4"
    by (rule mul_cert [where e = 2 and n = 4503599627370496]) (simp_all add: pow2_def)
  have s3: "Finite False 4 * Finite False 2 = Finite False 8"
    by (rule mul_cert [where e = 3 and n = 4503599627370496]) (simp_all add: pow2_def)
  show ?thesis
    by (simp only: square_def cubic_def convert_from_def convert_to_def s1 s2 s3)
qed

lemma lit_8: "dbl 8 = Finite False 8"
  by (rule dbl_cert [where e = 3 and n = 4503599627370496]) (simp_all add: pow2_def)

lemma square_minus_2: "square (dbl (- 2)) = Finite False 4"
proof -
  have s1: "dbl (- 2) = Finite True 2"
    by (rule dbl_cert [where e = 1 and n = 4503599627370496]) (simp_all add: pow2_def)
  have s2: "Finite True 2 * Finite True 2 = Finite False 4"
    by (rule mul_cert [where e = 2 and n = 4503599627370496]) (simp_all add: pow2_def)
  show ?thesis
    by (simp only: square_def cubic_def convert_from_def convert_to_def s1 s2)
qed

lemma lit_4: "dbl 4 = Finite False 4"
  by (rule dbl_cert [where e = 2 and n = 4503599627370496]) (simp_all add: pow2_def)


section \<open>Round trips through the table\<close>

lemma lit_1e6: "dbl (10 ^ 6) = Finite False 1000000"
  by (rule dbl_cert [where e = 19 and n = 8589934592000000]) (simp_all add: pow2_def)

lemma lit_1e307: "dbl (10 ^ 307) = Finite False (8016673440035891 * 2 ^ 967)"
  by (rule dbl_cert [where e = 1019 and n = 8016673440035891]) (simp_all add: pow2_def)

lemma roundtrip_micro:
  "deq (convert_to (convert_from (dbl 0) micro) micro) (dbl 0) \<and>
   deq (convert_to (convert_from (dbl 1) micro) micro) (dbl 1) \<and>
   deq (convert_to (convert_from (dbl (- 1)) micro) micro) (dbl (- 1)) \<and>
   deq (convert_to (convert_from (dbl (1 / 10 ^ 6)) micro) micro) (dbl (1 / 10 ^ 6)) \<and>
   (micro \<noteq> pound \<and> micro \<noteq> gravity \<longrightarrow>
      deq (convert_to (convert_from (dbl (10 ^ 6)) micro) micro) (dbl (10 ^ 6)))"
proof -
  have fx: "rnd False (4722366482869645 / 2 ^ 72) = Finite False (4722366482869645 / 2 ^ 72)"
    by (rule rnd_cert [where e = "-20" and n = 4722366482869645]) (simp_all add: pow2_def)
  have q0: "deq (convert_to (convert_from (dbl 0) micro) micro) (dbl 0)"
    unfolding micro_val by (rule roundtrip_zero) simp
  have q1: "deq (convert_to (convert_from (dbl 1) micro) micro) (dbl 1)"
    unfolding micro_val by (rule roundtrip_one [OF fx]) simp
  have q2: "deq (convert_to (convert_from (dbl (- 1)) micro) micro) (dbl (- 1))"
    unfolding micro_val by (rule roundtrip_minus_one [OF fx]) simp
  have a1: "dbl (1 / 10 ^ 6) = Finite False (4722366482869645 / 2 ^ 72)"
    by (rule dbl_cert [where e = "-20" and n = 4722366482869645]) (simp_all add: pow2_def)
  have a2: "Finite False (4722366482869645 / 2 ^ 72) * Finite False (4722366482869645 / 2 ^ 72)
      = Finite False (4951760157141521 / 2 ^ 92)"
    by (rule mul_cert [where e = "-40" and n = 4951760157141521]) (simp_all add: pow2_def)
  have a3: "Finite False (4951760157141521 / 2 ^ 92) / Finite False (4722366482869645 / 2 ^ 72)
      = Finite False (4722366482869645 / 2 ^ 72)"
    by (rule div_cert [where e = "-20" and n = 4722366482869645]) (simp_all add: pow2_def)
  have qa: "deq (convert_to (convert_from (dbl (1 / 10 ^ 6)) micro) micro) (dbl (1 / 10 ^ 6))"
    unfolding convert_from_def convert_to_def micro_val a1 a2 a3
    by simp
  have b1: "dbl (10 ^ 6) = Finite False 1000000"
    by (rule dbl_cert [where e = 19 and n = 8589934592000000]) (simp_all add: pow2_def)
  have b2: "Finite False 1000000 * Finite False (4722366482869645 / 2 ^ 72) = Finite False 1"
    by (rule mul_cert [where e = "-1" and n = 9007199254740992]) (simp_all add: pow2_def)
  have b3: "Finite False 1 / Finite False (4722366482869645 / 2 ^ 72) = Finite False 1000000"
    by (rule div_cert [where e = 19 and n = 8589934592000000]) (simp_all add: pow2_def)
  have qb: "deq (convert_to (convert_from (dbl (10 ^ 6)) micro) micro) (dbl (10 ^ 6))"
    unfolding convert_from_def convert_to_def micro_val b1 b2 b3
    by simp
  show ?thesis
    using q0 q1 q2 qa qb by simp
qed

lemma roundtrip_milli:
  "deq (convert_to (convert_from (dbl 0) milli) milli) (dbl 0) \<and>
   deq (convert_to (convert_from (dbl 1) milli) milli) (dbl 1) \<and>
   deq (convert_to (convert_from (dbl (- 1)) milli) milli) (dbl (- 1)) \<and>
   deq (convert_to (convert_from (dbl (1 / 10 ^ 6)) milli) milli) (dbl (1 / 10 ^ 6)) \<and>
   (milli \<noteq> pound \<and> milli \<noteq> gravity \<longrightarrow>
      deq (convert_to (convert_from (dbl (10 ^ 6)) milli) milli) (dbl (10 ^ 6)))"
proof -
  have fx: "rnd False (1152921504606847 / 2 ^ 60) = Finite False (1152921504606847 / 2 ^ 60)"
    by (rule rnd_cert [where e = "-10" and n = 4611686018427388]) (simp_all add: pow2_def)
  have q0: "deq (convert_to (convert_from (dbl 0) milli) milli) (dbl 0)"
    unfolding milli_val by (rule roundtrip_zero) simp
  have q1: "deq (convert_to (convert_from (dbl 1) milli) milli) (dbl 1)"
    unfolding milli_val by (rule roundtrip_one [OF fx]) simp
  have q2: "deq (convert_to (convert_from (dbl (- 1)) milli) milli) (dbl (- 1))"
    unfolding milli_val by (rule roundtrip_minus_one [OF fx]) simp
  have a1: "dbl (1 / 10 ^ 6) = Finite False (4722366482869645 / 2 ^ 72)"
    by (rule dbl_cert [where e = "-20" and n = 4722366482869645]) (simp_all add: pow2_def)
  have a2: "Finite False (4722366482869645 / 2 ^ 72) * Finite False (1152921504606847 / 2 ^ 60)
      = Finite False (4835703278458517 / 2 ^ 82)"
    by (rule mul_cert [where e = "-30" and n = 4835703278458517]) (simp_all add: pow2_def)
  have a3: "Finite False (4835703278458517 / 2 ^ 82) / Finite False (1152921504606847 / 2 ^ 60)
      = Finite False (4722366482869645 / 2 ^ 72)"
    by (rule div_cert [where e = "-20" and n = 4722366482869645]) (simp_all add: pow2_def)
  have qa: "deq (convert_to (convert_from (dbl (1 / 10 ^ 6)) milli) milli) (dbl (1 / 10 ^ 6))"
    unfolding convert_from_def convert_to_def milli_val a1 a2 a3
    by simp
  have b1: "dbl (10 ^ 6) = Finite False 1000000"
    by (rule dbl_cert [where e = 19 and n = 8589934592000000]) (simp_all add: pow2_def)
  have b2: "Finite False 1000000 * Finite False (1152921504606847 / 2 ^ 60) = Finite False 1000"
    by (rule mul_cert [where e = 9 and n = 8796093022208000]) (simp_all add: pow2_def)
  have b3: "Finite False 1000 / Finite False (1152921504606847 / 2 ^ 60) = Finite False 1000000"
    by (rule div_cert [where e = 19 and n = 8589934592000000]) (simp_all add: pow2_def)
  have qb: "deq (convert_to (convert_from (dbl (10 ^ 6)) milli) milli) (dbl (10 ^ 6))"
    unfolding convert_from_def convert_to_def milli_val b1 b2 b3
    by simp
  show ?thesis
    using q0 q1 q2 qa qb by simp
qed

lemma roundtrip_centi:
  "deq (convert_to (convert_from (dbl 0) centi) centi) (dbl 0) \<and>
   deq (convert_to (convert_from (dbl 1) centi) centi) (dbl 1) \<and>
   deq (convert_to (convert_from (dbl (- 1)) centi) centi) (dbl (- 1)) \<and>
   deq (convert_to (convert_from (dbl (1 / 10 ^ 6)) centi) centi) (dbl (1 / 10 ^ 6)) \<and>
   (centi \<noteq> pound \<and> centi \<noteq> gravity \<longrightarrow>
      deq (convert_to (convert_from (dbl (10 ^ 6)) centi) centi) (dbl (10 ^ 6)))"
proof -
  have fx: "rnd False (5764607523034235 / 2 ^ 59) = Finite False (5764607523034235 / 2 ^ 59)"
    by (rule rnd_cert [where e = "-7" and n = 5764607523034235]) (simp_all add: pow2_def)
  have q0: "deq (convert_to (convert_from (dbl 0) centi) centi) (dbl 0)"
    unfolding centi_val by (rule roundtrip_zero) simp
  have q1: "deq (convert_to (convert_from (dbl 1) centi) centi) (dbl 1)"
    unfolding centi_val by (rule roundtrip_one [OF fx]) simp
  have q2: "deq (convert_to (convert_from (dbl (- 1)) centi) centi) (dbl (- 1))"
    unfolding centi_val by (rule roundtrip_minus_one [OF fx]) simp
  have a1: "dbl (1 / 10 ^ 6) = Finite False (4722366482869645 / 2 ^ 72)"
    by (rule dbl_cert [where e = "-20" and n = 4722366482869645]) (simp_all add: pow2_def)
  have a2: "Finite False (4722366482869645 / 2 ^ 72) * Finite False (5764607523034235 / 2 ^ 59)
      = Finite False (3022314549036573 / 2 ^ 78)"
    by (rule mul_cert [where e = "-27" and n = 6044629098073146]) (simp_all add: pow2_def)
  have a3: "Finite False (3022314549036573 / 2 ^ 78) / Finite False (5764607523034235 / 2 ^ 59)
      = Finite False (4722366482869645 / 2 ^ 72)"
    by (rule div_cert [where e = "-20" and n = 4722366482869645]) (simp_all add: pow2_def)
  have qa: "deq (convert_to (convert_from (dbl (1 / 10 ^ 6)) centi) centi) (dbl (1 / 10 ^ 6))"
    unfolding convert_from_def convert_to_def centi_val a1 a2 a3
    by simp
  have b1: "dbl (10 ^ 6) = Finite False 1000000"
    by (rule dbl_cert [where e = 19 and n = 8589934592000000]) (simp_all add: pow2_def)
  have b2: "Finite False 1000000 * Finite False (5764607523034235 / 2 ^ 59) = Finite False 10000"
    by (rule mul_cert [where e = 13 and n = 5497558138880000]) (simp_all add: pow2_def)
  have b3: "Finite False 10000 / Finite False (5764607523034235 / 2 ^ 59) = Finite False 1000000"
    by (rule div_cert [where e = 19 and n = 8589934592000000]) (simp_all add: pow2_def)
  have qb: "deq (convert_to (convert_from (dbl (10 ^ 6)) centi) centi) (dbl (10 ^ 6))"
    unfolding convert_from_def convert_to_def centi_val b1 b2 b3
    by simp
  show ?thesis
    using q0 q1 q2 qa qb by simp
qed

lemma roundtrip_deci:
  "deq (convert_to (convert_from (dbl 0) deci) deci) (dbl 0) \<and>
   deq (convert_to (convert_from (dbl 1) deci) deci) (dbl 1) \<and>
   deq (convert_to (convert_from (dbl (- 1)) deci) deci) (dbl (- 1)) \<and>
   deq (convert_to (convert_from (dbl (1 / 10 ^ 6)) deci) deci) (dbl (1 / 10 ^ 6)) \<and>
   (deci \<noteq> pound \<and> deci \<noteq> gravity \<longrightarrow>
      deq (convert_to (convert_from (dbl (10 ^ 6)) deci) deci) (dbl (10 ^ 6)))"
proof -
  have fx: "rnd False (3602879701896397 / 2 ^ 55) = Finite False (3602879701896397 / 2 ^ 55)"
    by (rule rnd_cert [where e = "-4" and n = 7205759403792794]) (simp_all add: pow2_def)
  have q0: "deq (convert_to (convert_from (dbl 0) deci) deci) (dbl 0)"
    unfolding deci_val by (rule roundtrip_zero) simp
  have q1: "deq (convert_to (convert_from (dbl 1) deci) deci) (dbl 1)"
    unfolding deci_val by (rule roundtrip_one [OF fx]) simp
  have q2: "deq (convert_to (convert_from (dbl (- 1)) deci) deci) (dbl (- 1))"
    unfolding deci_val by (rule roundtrip_minus_one [OF fx]) simp
  have a1: "dbl (1 / 10 ^ 6) = Finite False (4722366482869645 / 2 ^ 72)"
    by (rule dbl_cert [where e = "-20" and n = 4722366482869645]) (simp_all add: pow2_def)
  have a2: "Finite False (4722366482869645 / 2 ^ 72) * Finite False (3602879701896397 / 2 ^ 55)
      = Finite False (944473296573929 / 2 ^ 73)"
    by (rule mul_cert [where e = "-24" and n = 7555786372591432]) (simp_all add: pow2_def)
  have a3: "Finite False (944473296573929 / 2 ^ 73) / Finite False (3602879701896397 / 2 ^ 55)
      = Finite False (4722366482869645 / 2 ^ 72)"
    by (rule div_cert [where e = "-20" and n = 4722366482869645]) (simp_all add: pow2_def)
  have qa: "deq (convert_to (convert_from (dbl (1 / 10 ^ 6)) deci) deci) (dbl (1 / 10 ^ 6))"
    unfolding convert_from_def convert_to_def deci_val a1 a2 a3
    by simp
  have b1: "dbl (10 ^ 6) = Finite False 1000000"
    by (rule dbl_cert [where e = 19 and n = 8589934592000000]) (simp_all add: pow2_def)
  have b2: "Finite False 1000000 * Finite False (3602879701896397 / 2 ^ 55) = Finite False 100000"
    by (rule mul_cert [where e = 16 and n = 6871947673600000]) (simp_all add: pow2_def)
  have b3: "Finite False 100000 / Finite False (3602879701896397 / 2 ^ 55) = Finite False 1000000"
    by (rule div_cert [where e = 19 and n = 8589934592000000]) (simp_all add: pow2_def)
  have qb: "deq (convert_to (convert_from (dbl (10 ^ 6)) deci) deci) (dbl (10 ^ 6))"
    unfolding convert_from_def convert_to_def deci_val b1 b2 b3
    by simp
  show ?thesis
    using q0 q1 q2 qa qb by simp
qed

lemma roundtrip_kilo:
  "deq (convert_to (convert_from (dbl 0) kilo) kilo) (dbl 0) \<and>
   deq (convert_to (convert_from (dbl 1) kilo) kilo) (dbl 1) \<and>
   deq (convert_to (convert_from (dbl (- 1)) kilo) kilo) (dbl (- 1)) \<and>
   deq (convert_to (convert_from (dbl (1 / 10 ^ 6)) kilo) kilo) (dbl (1 / 10 ^ 6)) \<and>
   (kilo \<noteq> pound \<and> kilo \<noteq> gravity \<longrightarrow>
      deq (convert_to (convert_from (dbl (10 ^ 6)) kilo) kilo) (dbl (10 ^ 6)))"
proof -
  have fx: "rnd False 1000 = Finite False 1000"
    by (rule rnd_cert [where e = 9 and n = 8796093022208000]) (simp_all add: pow2_def)
  have q0: "deq (convert_to (convert_from (dbl 0) kilo) kilo) (dbl 0)"
    unfolding kilo_val by (rule roundtrip_zero) simp
  have q1: "deq (convert_to (convert_from (dbl 1) kilo) kilo) (dbl 1)"
    unfolding kilo_val by (rule roundtrip_one [OF fx]) simp
  have q2: "deq (convert_to (convert_from (dbl (- 1)) kilo) kilo) (dbl (- 1))"
    unfolding kilo_val by (rule roundtrip_minus_one [OF fx]) simp
  have a1: "dbl (1 / 10 ^ 6) = Finite False (4722366482869645 / 2 ^ 72)"
    by (rule dbl_cert [where e = "-20" and n = 4722366482869645]) (simp_all add: pow2_def)
  have a2: "Finite False (4722366482869645 / 2 ^ 72) * Finite False 1000
      = Finite False (1152921504606847 / 2 ^ 60)"
    by (rule mul_cert [where e = "-10" and n = 4611686018427388]) (simp_all add: pow2_def)
  have a3: "Finite False (1152921504606847 / 2 ^ 60) / Finite False 1000
      = Finite False (4722366482869645 / 2 ^ 72)"
    by (rule div_cert [where e = "-20" and n = 4722366482869645]) (simp_all add: pow2_def)
  have qa: "deq (convert_to (convert_from (dbl (1 / 10 ^ 6)) kilo) kilo) (dbl (1 / 10 ^ 6))"
    unfolding convert_from_def convert_to_def kilo_val a1 a2 a3
    by simp
  have b1: "dbl (10 ^ 6) = Finite False 1000000"
    by (rule dbl_cert [where e = 19 and n = 8589934592000000]) (simp_all add: pow2_def)
  have b2: "Finite False 1000000 * Finite False 1000 = Finite False 1000000000"
    by (rule mul_cert [where e = 29 and n = 8388608000000000]) (simp_all add: pow2_def)
  have b3: "Finite False 1000000000 / Finite False 1000 = Finite False 1000000"
    by (rule div_cert [where e = 19 and n = 8589934592000000]) (simp_all add: pow2_def)
  have qb: "deq (convert_to (convert_from (dbl (10 ^ 6)) kilo) kilo) (dbl (10 ^ 6))"
    unfolding convert_from_def convert_to_def kilo_val b1 b2 b3
    by simp
  show ?thesis
    using q0 q1 q2 qa qb by simp
qed

lemma roundtrip_mega:
  "deq (convert_to (convert_from (dbl 0) mega) mega) (dbl 0) \<and>
   deq (convert_to (convert_from (dbl 1) mega) mega) (dbl 1) \<and>
   deq (convert_to (convert_from (dbl (- 1)) mega) mega) (dbl (- 1)) \<and>
   deq (convert_to (convert_from (dbl (1 / 10 ^ 6)) mega) mega) (dbl (1 / 10 ^ 6)) \<and>
   (mega \<noteq> pound \<and> mega \<noteq> gravity \<longrightarrow>
      deq (convert_to (convert_from (dbl (10 ^ 6)) mega) mega) (dbl (10 ^ 6)))"
proof -
  have fx: "rnd False 1000000 = Finite False 1000000"
    by (rule rnd_cert [where e = 19 and n = 8589934592000000]) (simp_all add: pow2_def)
  have q0: "deq (convert_to (convert_from (dbl 0) mega) mega) (dbl 0)"
    unfolding mega_val by (rule roundtrip_zero) simp
  have q1: "deq (convert_to (convert_from (dbl 1) mega) mega) (dbl 1)"
    unfolding mega_val by (rule roundtrip_one [OF fx]) simp
  have q2: "deq (convert_to (convert_from (dbl (- 1)) mega) mega) (dbl (- 1))"
    unfolding mega_val by (rule roundtrip_minus_one [OF fx]) simp
  have a1: "dbl (1 / 10 ^ 6) = Finite False (4722366482869645 / 2 ^ 72)"
    by (rule dbl_cert [where e = "-20" and n = 4722366482869645]) (simp_all add: pow2_def)
  have a2: "Finite False (4722366482869645 / 2 ^ 72) * Finite False 1000000 = Finite False 1"
    by (rule mul_cert [where e = "-1" and n = 9007199254740992]) (simp_all add: pow2_def)
  have a3: "Finite False 1 / Finite False 1000000 = Finite False (4722366482869645 / 2 ^ 72)"
    by (rule div_cert [where e = "-20" and n = 4722366482869645]) (simp_all add: pow2_def)
  have qa: "deq (convert_to (convert_from (dbl (1 / 10 ^ 6)) mega) mega) (dbl (1 / 10 ^ 6))"
    unfolding convert_from_def convert_to_def mega_val a1 a2 a3
    by simp
  have b1: "dbl (10 ^ 6) = Finite False 1000000"
    by (rule dbl_cert [where e = 19 and n = 8589934592000000]) (simp_all add: pow2_def)
  have b2: "Finite False 1000000 * Finite False 1000000 = Finite False 1000000000000"
    by (rule mul_cert [where e = 39 and n = 8192000000000000]) (simp_all add: pow2_def)
  have b3: "Finite False 1000000000000 / Finite False 1000000 = Finite False 1000000"
    by (rule div_cert [where e = 19 and n = 8589934592000000]) (simp_all add: pow2_def)
  have qb: "deq (convert_to (convert_from (dbl (10 ^ 6)) mega) mega) (dbl (10 ^ 6))"
    unfolding convert_from_def convert_to_def mega_val b1 b2 b3
    by simp
  show ?thesis
    using q0 q1 q2 qa qb by simp
qed

lemma roundtrip_giga:
  "deq (convert_to (convert_from (dbl 0) giga) giga) (dbl 0) \<and>
   deq (convert_to (convert_from (dbl 1) giga) giga) (dbl 1) \<and>
   deq (convert_to (convert_from (dbl (- 1)) giga) giga) (dbl (- 1)) \<and>
   deq (convert_to (convert_from (dbl (1 / 10 ^ 6)) giga) giga) (dbl (1 / 10 ^ 6)) \<and>
   (giga \<noteq> pound \<and> giga \<noteq> gravity \<longrightarrow>
      deq (convert_to (convert_from (dbl (10 ^ 6)) giga) giga) (dbl (10 ^ 6)))"
proof -
  have fx: "rnd False 1000000000 = Finite False 1000000000"
    by (rule rnd_cert [where e = 29 and n = 8388608000000000]) (simp_all add: pow2_def)
  have q0: "deq (convert_to (convert_from (dbl 0) giga) giga) (dbl 0)"
    unfolding giga_val by (rule roundtrip_zero) simp
  have q1: "deq (convert_to (convert_from (dbl 1) giga) giga) (dbl 1)"
    unfolding giga_val by (rule roundtrip_one [OF fx]) simp
  have q2: "deq (convert_to (convert_from (dbl (- 1)) giga) giga) (dbl (- 1))"
    unfolding giga_val by (rule roundtrip_minus_one [OF fx]) simp
  have a1: "dbl (1 / 10 ^ 6) = Finite False (4722366482869645 / 2 ^ 72)"
    by (rule dbl_cert [where e = "-20" and n = 4722366482869645]) (simp_all add: pow2_def)
  have a2: "Finite False (4722366482869645 / 2 ^ 72) * Finite False 1000000000
      = Finite False 1000"
    by (rule mul_cert [where e = 9 and n = 8796093022208000]) (simp_all add: pow2_def)
  have a3: "Finite False 1000 / Finite False 1000000000
      = Finite False (4722366482869645 / 2 ^ 72)"
    by (rule div_cert [where e = "-20" and n = 4722366482869645]) (simp_all add: pow2_def)
  have qa: "deq (convert_to (convert_from (dbl (1 / 10 ^ 6)) giga) giga) (dbl (1 / 10 ^ 6))"
    unfolding convert_from_def convert_to_def giga_val a1 a2 a3
    by simp
  have b1: "dbl (10 ^ 6) = Finite False 1000000"
    by (rule dbl_cert [where e = 19 and n = 8589934592000000]) (simp_all add: pow2_def)
  have b2: "Finite False 1000000 * Finite False 1000000000 = Finite False 1000000000000000"
    by (rule mul_cert [where e = 49 and n = 8000000000000000]) (simp_all add: pow2_def)
  have b3: "Finite False 1000000000000000 / Finite False 1000000000 = Finite False 1000000"
    by (rule div_cert [where e = 19 and n = 8589934592000000]) (simp_all add: pow2_def)
  have qb: "deq (convert_to (convert_from (dbl (10 ^ 6)) giga) giga) (dbl (10 ^ 6))"
    unfolding convert_from_def convert_to_def giga_val b1 b2 b3
    by simp
  show ?thesis
    using q0 q1 q2 qa qb by simp
qed

lemma roundtrip_meter:
  "deq (convert_to (convert_from (dbl 0) meter) meter) (dbl 0) \<and>
   deq (convert_to (convert_from (dbl 1) meter) meter) (dbl 1) \<and>
   deq (convert_to (convert_from (dbl (- 1)) meter) meter) (dbl (- 1)) \<and>
   deq (convert_to (convert_from (dbl (1 / 10 ^ 6)) meter) meter) (dbl (1 / 10 ^ 6)) \<and>
   (meter \<noteq> pound \<and> meter \<noteq> gravity \<longrightarrow>
      deq (convert_to (convert_from (dbl (10 ^ 6)) meter) meter) (dbl (10 ^ 6)))"
proof -
  have fx: "rnd False 1 = Finite False 1"
    by (rule rnd_cert [where e = 0 and n = 4503599627370496]) (simp_all add: pow2_def)
  have q0: "deq (convert_to (convert_from (dbl 0) meter) meter) (dbl 0)"
    unfolding meter_val by (rule roundtrip_zero) simp
  have q1: "deq (convert_to (convert_from (dbl 1) meter) meter) (dbl 1)"
    unfolding meter_val by (rule roundtrip_one [OF fx]) simp
  have q2: "deq (convert_to (convert_from (dbl (- 1)) meter) meter) (dbl (- 1))"
    unfolding meter_val by (rule roundtrip_minus_one [OF fx]) simp
  have a1: "dbl (1 / 10 ^ 6) = Finite False (4722366482869645 / 2 ^ 72)"
    by (rule dbl_cert [where e = "-20" and n = 4722366482869645]) (simp_all add: pow2_def)
  have a2: "Finite False (4722366482869645 / 2 ^ 72) * Finite False 1
      = Finite False (4722366482869645 / 2 ^ 72)"
    by (rule mul_cert [where e = "-20" and n = 4722366482869645]) (simp_all add: pow2_def)
  have a3: "Finite False (4722366482869645 / 2 ^ 72) / Finite False 1
      = Finite False (4722366482869645 / 2 ^ 72)"
    by (rule div_cert [where e = "-20" and n = 4722366482869645]) (simp_all add: pow2_def)
  have qa: "deq (convert_to (convert_from (dbl (1 / 10 ^ 6)) meter) meter) (dbl (1 / 10 ^ 6))"
    unfolding convert_from_def convert_to_def meter_val a1 a2 a3
    by simp
  have b1: "dbl (10 ^ 6) = Finite False 1000000"
    by (rule dbl_cert [where e = 19 and n = 8589934592000000]) (simp_all add: pow2_def)
  have b2: "Finite False 1000000 * Finite False 1 = Finite False 1000000"
    by (rule mul_cert [where e = 19 and n = 8589934592000000]) (simp_all add: pow2_def)
  have b3: "Finite False 1000000 / Finite False 1 = Finite False 1000000"
    by (rule div_cert [where e = 19 and n = 8589934592000000]) (simp_all add: pow2_def)
  have qb: "deq (convert_to (convert_from (dbl (10 ^ 6)) meter) meter) (dbl (10 ^ 6))"
    unfolding convert_from_def convert_to_def meter_val b1 b2 b3
    by simp
  show ?thesis
    using q0 q1 q2 qa qb by simp
qed

lemma roundtrip_inch:
  "deq (convert_to (convert_from (dbl 0) inch) inch) (dbl 0) \<and>
   deq (convert_to (convert_from (dbl 1) inch) inch) (dbl 1) \<and>
   deq (convert_to (convert_from (dbl (- 1)) inch) inch) (dbl (- 1)) \<and>
   deq (convert_to (convert_from (dbl (1 / 10 ^ 6)) inch) inch) (dbl (1 / 10 ^ 6)) \<and>
   (inch \<noteq> pound \<and> inch \<noteq> gravity \<longrightarrow>
      deq (convert_to (convert_from (dbl (10 ^ 6)) inch) inch) (dbl (10 ^ 6)))"
proof -
  have fx: "rnd False (7321051554253479 / 2 ^ 58) = Finite False (7321051554253479 / 2 ^ 58)"
    by (rule rnd_cert [where e = "-6" and n = 7321051554253479]) (simp_all add: pow2_def)
  have q0: "deq (convert_to (convert_from (dbl 0) inch) inch) (dbl 0)"
    unfolding inch_val by (rule roundtrip_zero) simp
  have q1: "deq (convert_to (convert_from (dbl 1) inch) inch) (dbl 1)"
    unfolding inch_val by (rule roundtrip_one [OF fx]) simp
  have q2: "deq (convert_to (convert_from (dbl (- 1)) inch) inch) (dbl (- 1))"
    unfolding inch_val by (rule roundtrip_minus_one [OF fx]) simp
  have a1: "dbl (1 / 10 ^ 6) = Finite False (4722366482869645 / 2 ^ 72)"
    by (rule dbl_cert [where e = "-20" and n = 4722366482869645]) (simp_all add: pow2_def)
  have a2: "Finite False (4722366482869645 / 2 ^ 72) * Finite False (7321051554253479 / 2 ^ 58)
      = Finite False (119948108664889 / 2 ^ 72)"
    by (rule mul_cert [where e = "-26" and n = 7676678954552896]) (simp_all add: pow2_def)
  have a3: "Finite False (119948108664889 / 2 ^ 72) / Finite False (7321051554253479 / 2 ^ 58)
      = Finite False (4722366482869645 / 2 ^ 72)"
    by (rule div_cert [where e = "-20" and n = 4722366482869645]) (simp_all add: pow2_def)
  have qa: "deq (convert_to (convert_from (dbl (1 / 10 ^ 6)) inch) inch) (dbl (1 / 10 ^ 6))"
    unfolding convert_from_def convert_to_def inch_val a1 a2 a3
    by simp
  have b1: "dbl (10 ^ 6) = Finite False 1000000"
    by (rule dbl_cert [where e = 19 and n = 8589934592000000]) (simp_all add: pow2_def)
  have b2: "Finite False 1000000 * Finite False (7321051554253479 / 2 ^ 58)
      = Finite False (6981898836377601 / 2 ^ 38)"
    by (rule mul_cert [where e = 14 and n = 6981898836377601]) (simp_all add: pow2_def)
  have b3: "Finite False (6981898836377601 / 2 ^ 38) / Finite False (7321051554253479 / 2 ^ 58)
      = Finite False 1000000"
    by (rule div_cert [where e = 19 and n = 8589934592000000]) (simp_all add: pow2_def)
  have qb: "deq (convert_to (convert_from (dbl (10 ^ 6)) inch) inch) (dbl (10 ^ 6))"
    unfolding convert_from_def convert_to_def inch_val b1 b2 b3
    by simp
  show ?thesis
    using q0 q1 q2 qa qb by simp
qed

lemma roundtrip_feet:
  "deq (convert_to (convert_from (dbl 0) feet) feet) (dbl 0) \<and>
   deq (convert_to (convert_from (dbl 1) feet) feet) (dbl 1) \<and>
   deq (convert_to (convert_from (dbl (- 1)) feet) feet) (dbl (- 1)) \<and>
   deq (convert_to (convert_from (dbl (1 / 10 ^ 6)) feet) feet) (dbl (1 / 10 ^ 6)) \<and>
   (feet \<noteq> pound \<and> feet \<noteq> gravity \<longrightarrow>
      deq (convert_to (convert_from (dbl (10 ^ 6)) feet) feet) (dbl (10 ^ 6)))"
proof -
  have fx: "rnd False (5490788665690109 / 2 ^ 54) = Finite False (5490788665690109 / 2 ^ 54)"
    by (rule rnd_cert [where e = "-2" and n = 5490788665690109]) (simp_all add: pow2_def)
  have q0: "deq (convert_to (convert_from (dbl 0) feet) feet) (dbl 0)"
    unfolding feet_val by (rule roundtrip_zero) simp
  have q1: "deq (convert_to (convert_from (dbl 1) feet) feet) (dbl 1)"
    unfolding feet_val by (rule roundtrip_one [OF fx]) simp
  have q2: "deq (convert_to (convert_from (dbl (- 1)) feet) feet) (dbl (- 1))"
    unfolding feet_val by (rule roundtrip_minus_one [OF fx]) simp
  have a1: "dbl (1 / 10 ^ 6) = Finite False (4722366482869645 / 2 ^ 72)"
    by (rule dbl_cert [where e = "-20" and n = 4722366482869645]) (simp_all add: pow2_def)
  have a2: "Finite False (4722366482869645 / 2 ^ 72) * Finite False (5490788665690109 / 2 ^ 54)
      = Finite False (5757509215914671 / 2 ^ 74)"
    by (rule mul_cert [where e = "-22" and n = 5757509215914671]) (simp_all add: pow2_def)
  have a3: "Finite False (5757509215914671 / 2 ^ 74) / Finite False (5490788665690109 / 2 ^ 54)
      = Finite False (4722366482869645 / 2 ^ 72)"
    by (rule div_cert [where e = "-20" and n = 4722366482869645]) (simp_all add: pow2_def)
  have qa: "deq (convert_to (convert_from (dbl (1 / 10 ^ 6)) feet) feet) (dbl (1 / 10 ^ 6))"
    unfolding convert_from_def convert_to_def feet_val a1 a2 a3
    by simp
  have b1: "dbl (10 ^ 6) = Finite False 1000000"
    by (rule dbl_cert [where e = 19 and n = 8589934592000000]) (simp_all add: pow2_def)
  have b2: "Finite False 1000000 * Finite False (5490788665690109 / 2 ^ 54) = Finite False 304800"
    by (rule mul_cert [where e = 18 and n = 5236424127283200]) (simp_all add: pow2_def)
  have b3: "Finite False 304800 / Finite False (5490788665690109 / 2 ^ 54) = Finite False 1000000"
    by (rule div_cert [where e = 19 and n = 8589934592000000]) (simp_all add: pow2_def)
  have qb: "deq (convert_to (convert_from (dbl (10 ^ 6)) feet) feet) (dbl (10 ^ 6))"
    unfolding convert_from_def convert_to_def feet_val b1 b2 b3
    by simp
  show ?thesis
    using q0 q1 q2 qa qb by simp
qed

lemma roundtrip_second:
  "deq (convert_to (convert_from (dbl 0) second) second) (dbl 0) \<and>
   deq (convert_to (convert_from (dbl 1) second) second) (dbl 1) \<and>
   deq (convert_to (convert_from (dbl (- 1)) second) second) (dbl (- 1)) \<and>
   deq (convert_to (convert_from (dbl (1 / 10 ^ 6)) second) second) (dbl (1 / 10 ^ 6)) \<and>
   (second \<noteq> pound \<and> second \<noteq> gravity \<longrightarrow>
      deq (convert_to (convert_from (dbl (10 ^ 6)) second) second) (dbl (10 ^ 6)))"
proof -
  have fx: "rnd False 1 = Finite False 1"
    by (rule rnd_cert [where e = 0 and n = 4503599627370496]) (simp_all add: pow2_def)
  have q0: "deq (convert_to (convert_from (dbl 0) second) second) (dbl 0)"
    unfolding second_val by (rule roundtrip_zero) simp
  have q1: "deq (convert_to (convert_from (dbl 1) second) second) (dbl 1)"
    unfolding second_val by (rule roundtrip_one [OF fx]) simp
  have q2: "deq (convert_to (convert_from (dbl (- 1)) second) second) (dbl (- 1))"
    unfolding second_val by (rule roundtrip_minus_one [OF fx]) simp
  have a1: "dbl (1 / 10 ^ 6) = Finite False (4722366482869645 / 2 ^ 72)"
    by (rule dbl_cert [where e = "-20" and n = 4722366482869645]) (simp_all add: pow2_def)
  have a2: "Finite False (4722366482869645 / 2 ^ 72) * Finite False 1
      = Finite False (4722366482869645 / 2 ^ 72)"
    by (rule mul_cert [where e = "-20" and n = 4722366482869645]) (simp_all add: pow2_def)
  have a3: "Finite False (4722366482869645 / 2 ^ 72) / Finite False 1
      = Finite False (4722366482869645 / 2 ^ 72)"
    by (rule div_cert [where e = "-20" and n = 4722366482869645]) (simp_all add: pow2_def)
  have qa: "deq (convert_to (convert_from (dbl (1 / 10 ^ 6)) second) second) (dbl (1 / 10 ^ 6))"
    unfolding convert_from_def convert_to_def second_val a1 a2 a3
    by simp
  have b1: "dbl (10 ^ 6) = Finite False 1000000"
    by (rule dbl_cert [where e = 19 and n = 8589934592000000]) (simp_all add: pow2_def)
  have b2: "Finite False 1000000 * Finite False 1 = Finite False 1000000"
    by (rule mul_cert [where e = 19 and n = 8589934592000000]) (simp_all add: pow2_def)
  have b3: "Finite False 1000000 / Finite False 1 = Finite False 1000000"
    by (rule div_cert [where e = 19 and n = 8589934592000000]) (simp_all add: pow2_def)
  have qb: "deq (convert_to (convert_from (dbl (10 ^ 6)) second) second) (dbl (10 ^ 6))"
    unfolding convert_from_def convert_to_def second_val b1 b2 b3
    by simp
  show ?thesis
    using q0 q1 q2 qa qb by simp
qed

lemma roundtrip_minute:
  "deq (convert_to (convert_from (dbl 0) minute) minute) (dbl 0) \<and>
   deq (convert_to (convert_from (dbl 1) minute) minute) (dbl 1) \<and>
   deq (convert_to (convert_from (dbl (- 1)) minute) minute) (dbl (- 1)) \<and>
   deq (convert_to (convert_from (dbl (1 / 10 ^ 6)) minute) minute) (dbl (1 / 10 ^ 6)) \<and>
   (minute \<noteq> pound \<and> minute \<noteq> gravity \<longrightarrow>
      deq (convert_to (convert_from (dbl (10 ^ 6)) minute) minute) (dbl (10 ^ 6)))"
proof -
  have fx: "rnd False 60 = Finite False 60"
    by (rule rnd_cert [where e = 5 and n = 8444249301319680]) (simp_all add: pow2_def)
  have q0: "deq (convert_to (convert_from (dbl 0) minute) minute) (dbl 0)"
    unfolding minute_val by (rule roundtrip_zero) simp
  have q1: "deq (convert_to (convert_from (dbl 1) minute) minute) (dbl 1)"
    unfolding minute_val by (rule roundtrip_one [OF fx]) simp
  have q2: "deq (convert_to (convert_from (dbl (- 1)) minute) minute) (dbl (- 1))"
    unfolding minute_val by (rule roundtrip_minus_one [OF fx]) simp
  have a1: "dbl (1 / 10 ^ 6) = Finite False (4722366482869645 / 2 ^ 72)"
    by (rule dbl_cert [where e = "-20" and n = 4722366482869645]) (simp_all add: pow2_def)
  have a2: "Finite False (4722366482869645 / 2 ^ 72) * Finite False 60
      = Finite False (1106804644422573 / 2 ^ 64)"
    by (rule mul_cert [where e = "-15" and n = 8854437155380584]) (simp_all add: pow2_def)
  have a3: "Finite False (1106804644422573 / 2 ^ 64) / Finite False 60
      = Finite False (4722366482869645 / 2 ^ 72)"
    by (rule div_cert [where e = "-20" and n = 4722366482869645]) (simp_all add: pow2_def)
  have qa: "deq (convert_to (convert_from (dbl (1 / 10 ^ 6)) minute) minute) (dbl (1 / 10 ^ 6))"
    unfolding convert_from_def convert_to_def minute_val a1 a2 a3
    by simp
  have b1: "dbl (10 ^ 6) = Finite False 1000000"
    by (rule dbl_cert [where e = 19 and n = 8589934592000000]) (simp_all add: pow2_def)
  have b2: "Finite False 1000000 * Finite False 60 = Finite False 60000000"
    by (rule mul_cert [where e = 25 and n = 8053063680000000]) (simp_all add: pow2_def)
  have b3: "Finite False 60000000 / Finite False 60 = Finite False 1000000"
    by (rule div_cert [where e = 19 and n = 8589934592000000]) (simp_all add: pow2_def)
  have qb: "deq (convert_to (convert_from (dbl (10 ^ 6)) minute) minute) (dbl (10 ^ 6))"
    unfolding convert_from_def convert_to_def minute_val b1 b2 b3
    by simp
  show ?thesis
    using q0 q1 q2 qa qb by simp
qed

lemma roundtrip_hour:
  "deq (convert_to (convert_from (dbl 0) hour) hour) (dbl 0) \<and>
   deq (convert_to (convert_from (dbl 1) hour) hour) (dbl 1) \<and>
   deq (convert_to (convert_from (dbl (- 1)) hour) hour) (dbl (- 1)) \<and>
   deq (convert_to (convert_from (dbl (1 / 10 ^ 6)) hour) hour) (dbl (1 / 10 ^ 6)) \<and>
   (hour \<noteq> pound \<and> hour \<noteq> gravity \<longrightarrow>
      deq (convert_to (convert_from (dbl (10 ^ 6)) hour) hour) (dbl (10 ^ 6)))"
proof -
  have fx: "rnd False 3600 = Finite False 3600"
    by (rule rnd_cert [where e = 11 and n = 7916483719987200]) (simp_all add: pow2_def)
  have q0: "deq (convert_to (convert_from (dbl 0) hour) hour) (dbl 0)"
    unfolding hour_val by (rule roundtrip_zero) simp
  have q1: "deq (convert_to (convert_from (dbl 1) hour) hour) (dbl 1)"
    unfolding hour_val by (rule roundtrip_one [OF fx]) simp
  have q2: "deq (convert_to (convert_from (dbl (- 1)) hour) hour) (dbl (- 1))"
    unfolding hour_val by (rule roundtrip_minus_one [OF fx]) simp
  have a1: "dbl (1 / 10 ^ 6) = Finite False (4722366482869645 / 2 ^ 72)"
    by (rule dbl_cert [where e = "-20" and n = 4722366482869645]) (simp_all add: pow2_def)
  have a2: "Finite False (4722366482869645 / 2 ^ 72) * Finite False 3600
      = Finite False (4150517416584649 / 2 ^ 60)"
    by (rule mul_cert [where e = "-9" and n = 8301034833169298]) (simp_all add: pow2_def)
  have a3: "Finite False (4150517416584649 / 2 ^ 60) / Finite False 3600
      = Finite False (4722366482869645 / 2 ^ 72)"
    by (rule div_cert [where e = "-20" and n = 4722366482869645]) (simp_all add: pow2_def)
  have qa: "deq (convert_to (convert_from (dbl (1 / 10 ^ 6)) hour) hour) (dbl (1 / 10 ^ 6))"
    unfolding convert_from_def convert_to_def hour_val a1 a2 a3
    by simp
  have b1: "dbl (10 ^ 6) = Finite False 1000000"
    by (rule dbl_cert [where e = 19 and n = 8589934592000000]) (simp_all add: pow2_def)
  have b2: "Finite False 1000000 * Finite False 3600 = Finite False 3600000000"
    by (rule mul_cert [where e = 31 and n = 7549747200000000]) (simp_all add: pow2_def)
  have b3: "Finite False 3600000000 / Finite False 3600 = Finite False 1000000"
    by (rule div_cert [where e = 19 and n = 8589934592000000]) (simp_all add: pow2_def)
  have qb: "deq (convert_to (convert_from (dbl (10 ^ 6)) hour) hour) (dbl (10 ^ 6))"
    unfolding convert_from_def convert_to_def hour_val b1 b2 b3
    by simp
  show ?thesis
    using q0 q1 q2 qa qb by simp
qed

lemma roundtrip_day:
  "deq (convert_to (convert_from (dbl 0) day) day) (dbl 0) \<and>
   deq (convert_to (convert_from (dbl 1) day) day) (dbl 1) \<and>
   deq (convert_to (convert_from (dbl (- 1)) day) day) (dbl (- 1)) \<and>
   deq (convert_to (convert_from (dbl (1 / 10 ^ 6)) day) day) (dbl (1 / 10 ^ 6)) \<and>
   (day \<noteq> pound \<and> day \<noteq> gravity \<longrightarrow>
      deq (convert_to (convert_from (dbl (10 ^ 6)) day) day) (dbl (10 ^ 6)))"
proof -
  have fx: "rnd False 86400 = Finite False 86400"
    by (rule rnd_cert [where e = 16 and n = 5937362789990400]) (simp_all add: pow2_def)
  have q0: "deq (convert_to (convert_from (dbl 0) day) day) (dbl 0)"
    unfolding day_val by (rule roundtrip_zero) simp
  have q1: "deq (convert_to (convert_from (dbl 1) day) day) (dbl 1)"
    unfolding day_val by (rule roundtrip_one [OF fx]) simp
  have q2: "deq (convert_to (convert_from (dbl (- 1)) day) day) (dbl (- 1))"
    unfolding day_val by (rule roundtrip_minus_one [OF fx]) simp
  have a1: "dbl (1 / 10 ^ 6) = Finite False (4722366482869645 / 2 ^ 72)"
    by (rule dbl_cert [where e = "-20" and n = 4722366482869645]) (simp_all add: pow2_def)
  have a2: "Finite False (4722366482869645 / 2 ^ 72) * Finite False 86400
      = Finite False (6225776124876973 / 2 ^ 56)"
    by (rule mul_cert [where e = "-4" and n = 6225776124876973]) (simp_all add: pow2_def)
  have a3: "Finite False (6225776124876973 / 2 ^ 56) / Finite False 86400
      = Finite False (4722366482869645 / 2 ^ 72)"
    by (rule div_cert [where e = "-20" and n = 4722366482869645]) (simp_all add: pow2_def)
  have qa: "deq (convert_to (convert_from (dbl (1 / 10 ^ 6)) day) day) (dbl (1 / 10 ^ 6))"
    unfolding convert_from_def convert_to_def day_val a1 a2 a3
    by simp
  have b1: "dbl (10 ^ 6) = Finite False 1000000"
    by (rule dbl_cert [where e = 19 and n = 8589934592000000]) (simp_all add: pow2_def)
  have b2: "Finite False 1000000 * Finite False 86400 = Finite False 86400000000"
    by (rule mul_cert [where e = 36 and n = 5662310400000000]) (simp_all add: pow2_def)
  have b3: "Finite False 86400000000 / Finite False 86400 = Finite False 1000000"
    by (rule div_cert [where e = 19 and n = 8589934592000000]) (simp_all add: pow2_def)
  have qb: "deq (convert_to (convert_from (dbl (10 ^ 6)) day) day) (dbl (10 ^ 6))"
    unfolding convert_from_def convert_to_def day_val b1 b2 b3
    by simp
  show ?thesis
    using q0 q1 q2 qa qb by simp
qed

lemma roundtrip_year:
  "deq (convert_to (convert_from (dbl 0) year) year) (dbl 0) \<and>
   deq (convert_to (convert_from (dbl 1) year) year) (dbl 1) \<and>
   deq (convert_to (convert_from (dbl (- 1)) year) year) (dbl (- 1)) \<and>
   deq (convert_to (convert_from (dbl (1 / 10 ^ 6)) year) year) (dbl (1 / 10 ^ 6)) \<and>
   (year \<noteq> pound \<and> year \<noteq> gravity \<longrightarrow>
      deq (convert_to (convert_from (dbl (10 ^ 6)) year) year) (dbl (10 ^ 6)))"
proof -
  have fx: "rnd False 31536000 = Finite False 31536000"
    by (rule rnd_cert [where e = 24 and n = 8465380540416000]) (simp_all add: pow2_def)
  have q0: "deq (convert_to (convert_from (dbl 0) year) year) (dbl 0)"
    unfolding year_val by (rule roundtrip_zero) simp
  have q1: "deq (convert_to (convert_from (dbl 1) year) year) (dbl 1)"
    unfolding year_val by (rule roundtrip_one [OF fx]) simp
  have q2: "deq (convert_to (convert_from (dbl (- 1)) year) year) (dbl (- 1))"
    unfolding year_val by (rule roundtrip_minus_one [OF fx]) simp
  have a1: "dbl (1 / 10 ^ 6) = Finite False (4722366482869645 / 2 ^ 72)"
    by (rule dbl_cert [where e = "-20" and n = 4722366482869645]) (simp_all add: pow2_def)
  have a2: "Finite False (4722366482869645 / 2 ^ 72) * Finite False 31536000
      = Finite False (8876594865547247 / 2 ^ 48)"
    by (rule mul_cert [where e = 4 and n = 8876594865547247]) (simp_all add: pow2_def)
  have a3: "Finite False (8876594865547247 / 2 ^ 48) / Finite False 31536000
      = Finite False (4722366482869645 / 2 ^ 72)"
    by (rule div_cert [where e = "-20" and n = 4722366482869645]) (simp_all add: pow2_def)
  have qa: "deq (convert_to (convert_from (dbl (1 / 10 ^ 6)) year) year) (dbl (1 / 10 ^ 6))"
    unfolding convert_from_def convert_to_def year_val a1 a2 a3
    by simp
  have b1: "dbl (10 ^ 6) = Finite False 1000000"
    by (rule dbl_cert [where e = 19 and n = 8589934592000000]) (simp_all add: pow2_def)
  have b2: "Finite False 1000000 * Finite False 31536000 = Finite False 31536000000000"
    by (rule mul_cert [where e = 44 and n = 8073216000000000]) (simp_all add: pow2_def)
  have b3: "Finite False 31536000000000 / Finite False 31536000 = Finite False 1000000"
    by (rule div_cert [where e = 19 and n = 8589934592000000]) (simp_all add: pow2_def)
  have qb: "deq (convert_to (convert_from (dbl (10 ^ 6)) year) year) (dbl (10 ^ 6))"
    unfolding convert_from_def convert_to_def year_val b1 b2 b3
    by simp
  show ?thesis
    using q0 q1 q2 qa qb by simp
qed

lemma roundtrip_kilogram:
  "deq (convert_to (convert_from (dbl 0) kilogram) kilogram) (dbl 0) \<and>
   deq (convert_to (convert_from (dbl 1) kilogram) kilogram) (dbl 1) \<and>
   deq (convert_to (convert_from (dbl (- 1)) kilogram) kilogram) (dbl (- 1)) \<and>
   deq (convert_to (convert_from (dbl (1 / 10 ^ 6)) kilogram) kilogram) (dbl (1 / 10 ^ 6)) \<and>
   (kilogram \<noteq> pound \<and> kilogram \<noteq> gravity \<longrightarrow>
      deq (convert_to (convert_from (dbl (10 ^ 6)) kilogram) kilogram) (dbl (10 ^ 6)))"
proof -
  have fx: "rnd False 1 = Finite False 1"
    by (rule rnd_cert [where e = 0 and n = 4503599627370496]) (simp_all add: pow2_def)
  have q0: "deq (convert_to (convert_from (dbl 0) kilogram) kilogram) (dbl 0)"
    unfolding kilogram_val by (rule roundtrip_zero) simp
  have q1: "deq (convert_to (convert_from (dbl 1) kilogram) kilogram) (dbl 1)"
    unfolding kilogram_val by (rule roundtrip_one [OF fx]) simp
  have q2: "deq (convert_to (convert_from (dbl (- 1)) kilogram) kilogram) (dbl (- 1))"
    unfolding kilogram_val by (rule roundtrip_minus_one [OF fx]) simp
  have a1: "dbl (1 / 10 ^ 6) = Finite False (4722366482869645 / 2 ^ 72)"
    by (rule dbl_cert [where e = "-20" and n = 4722366482869645]) (simp_all add: pow2_def)
  have a2: "Finite False (4722366482869645 / 2 ^ 72) * Finite False 1
      = Finite False (4722366482869645 / 2 ^ 72)"
    by (rule mul_cert [where e = "-20" and n = 4722366482869645]) (simp_all add: pow2_def)
  have a3: "Finite False (4722366482869645 / 2 ^ 72) / Finite False 1
      = Finite False (4722366482869645 / 2 ^ 72)"
    by (rule div_cert [where e = "-20" and n = 4722366482869645]) (simp_all add: pow2_def)
  have qa: "deq (convert_to (convert_from (dbl (1 / 10 ^ 6)) kilogram) kilogram) (dbl (1 / 10 ^ 6))"
    unfolding convert_from_def convert_to_def kilogram_val a1 a2 a3
    by simp
  have b1: "dbl (10 ^ 6) = Finite False 1000000"
    by (rule dbl_cert [where e = 19 and n = 8589934592000000]) (simp_all add: pow2_def)
  have b2: "Finite False 1000000 * Finite False 1 = Finite False 1000000"
    by (rule mul_cert [where e = 19 and n = 8589934592000000]) (simp_all add: pow2_def)
  have b3: "Finite False 1000000 / Finite False 1 = Finite False 1000000"
    by (rule div_cert [where e = 19 and n = 8589934592000000]) (simp_all add: pow2_def)
  have qb: "deq (convert_to (convert_from (dbl (10 ^ 6)) kilogram) kilogram) (dbl (10 ^ 6))"
    unfolding convert_from_def convert_to_def kilogram_val b1 b2 b3
    by simp
  show ?thesis
    using q0 q1 q2 qa qb by simp
qed

lemma roundtrip_pound:
  "deq (convert_to (convert_from (dbl 0) pound) pound) (dbl 0) \<and>
   deq (convert_to (convert_from (dbl 1) pound) pound) (dbl 1) \<and>
   deq (convert_to (convert_from (dbl (- 1)) pound) pound) (dbl (- 1)) \<and>
   deq (convert_to (convert_from (dbl (1 / 10 ^ 6)) pound) pound) (dbl (1 / 10 ^ 6)) \<and>
   (pound \<noteq> pound \<and> pound \<noteq> gravity \<longrightarrow>
      deq (convert_to (convert_from (dbl (10 ^ 6)) pound) pound) (dbl (10 ^ 6)))"
proof -
  have fx: "rnd False (8171193714040401 / 2 ^ 54) = Finite False (8171193714040401 / 2 ^ 54)"
    by (rule rnd_cert [where e = "-2" and n = 8171193714040401]) (simp_all add: pow2_def)
  have q0: "deq (convert_to (convert_from (dbl 0) pound) pound) (dbl 0)"
    unfolding pound_val by (rule roundtrip_zero) simp
  have q1: "deq (convert_to (convert_from (dbl 1) pound) pound) (dbl 1)"
    unfolding pound_val by (rule roundtrip_one [OF fx]) simp
  have q2: "deq (convert_to (convert_from (dbl (- 1)) pound) pound) (dbl (- 1))"
    unfolding pound_val by (rule roundtrip_minus_one [OF fx]) simp
  have a1: "dbl (1 / 10 ^ 6) = Finite False (4722366482869645 / 2 ^ 72)"
    by (rule dbl_cert [where e = "-20" and n = 4722366482869645]) (simp_all add: pow2_def)
  have a2: "Finite False (4722366482869645 / 2 ^ 72) * Finite False (8171193714040401 / 2 ^ 54)
      = Finite False (8568117619893627 / 2 ^ 74)"
    by (rule mul_cert [where e = "-22" and n = 8568117619893627]) (simp_all add: pow2_def)
  have a3: "Finite False (8568117619893627 / 2 ^ 74) / Finite False (8171193714040401 / 2 ^ 54)
      = Finite False (4722366482869645 / 2 ^ 72)"
    by (rule div_cert [where e = "-20" and n = 4722366482869645]) (simp_all add: pow2_def)
  have qa: "deq (convert_to (convert_from (dbl (1 / 10 ^ 6)) pound) pound) (dbl (1 / 10 ^ 6))"
    unfolding convert_from_def convert_to_def pound_val a1 a2 a3
    by simp
  show ?thesis
    using q0 q1 q2 qa by simp
qed

lemma roundtrip_gravity:
  "deq (convert_to (convert_from (dbl 0) gravity) gravity) (dbl 0) \<and>
   deq (convert_to (convert_from (dbl 1) gravity) gravity) (dbl 1) \<and>
   deq (convert_to (convert_from (dbl (- 1)) gravity) gravity) (dbl (- 1)) \<and>
   deq (convert_to (convert_from (dbl (1 / 10 ^ 6)) gravity) gravity) (dbl (1 / 10 ^ 6)) \<and>
   (gravity \<noteq> pound \<and> gravity \<noteq> gravity \<longrightarrow>
      deq (convert_to (convert_from (dbl (10 ^ 6)) gravity) gravity) (dbl (10 ^ 6)))"
proof -
  have fx: "rnd False (5520653160719109 / 2 ^ 49) = Finite False (5520653160719109 / 2 ^ 49)"
    by (rule rnd_cert [where e = 3 and n = 5520653160719109]) (simp_all add: pow2_def)
  have q0: "deq (convert_to (convert_from (dbl 0) gravity) gravity) (dbl 0)"
    unfolding gravity_val by (rule roundtrip_zero) simp
  have q1: "deq (convert_to (convert_from (dbl 1) gravity) gravity) (dbl 1)"
    unfolding gravity_val by (rule roundtrip_one [OF fx]) simp
  have q2: "deq (convert_to (convert_from (dbl (- 1)) gravity) gravity) (dbl (- 1))"
    unfolding gravity_val by (rule roundtrip_minus_one [OF fx]) simp
  have a1: "dbl (1 / 10 ^ 6) = Finite False (4722366482869645 / 2 ^ 72)"
    by (rule dbl_cert [where e = "-20" and n = 4722366482869645]) (simp_all add: pow2_def)
  have a2: "Finite False (4722366482869645 / 2 ^ 72) * Finite False (5520653160719109 / 2 ^ 49)
      = Finite False (723603051081775 / 2 ^ 66)"
    by (rule mul_cert [where e = "-17" and n = 5788824408654200]) (simp_all add: pow2_def)
  have a3: "Finite False (723603051081775 / 2 ^ 66) / Finite False (5520653160719109 / 2 ^ 49)
      = Finite False (4722366482869645 / 2 ^ 72)"
    by (rule div_cert [where e = "-20" and n = 4722366482869645]) (simp_all add: pow2_def)
  have qa: "deq (convert_to (convert_from (dbl (1 / 10 ^ 6)) gravity) gravity) (dbl (1 / 10 ^ 6))"
    unfolding convert_from_def convert_to_def gravity_val a1 a2 a3
    by simp
  show ?thesis
    using q0 q1 q2 qa by simp
qed

lemma roundtrip_Newton:
  "deq (convert_to (convert_from (dbl 0) Newton) Newton) (dbl 0) \<and>
   deq (convert_to (convert_from (dbl 1) Newton) Newton) (dbl 1) \<and>
   deq (convert_to (convert_from (dbl (- 1)) Newton) Newton) (dbl (- 1)) \<and>
   deq (convert_to (convert_from (dbl (1 / 10 ^ 6)) Newton) Newton) (dbl (1 / 10 ^ 6)) \<and>
   (Newton \<noteq> pound \<and> Newton \<noteq> gravity \<longrightarrow>
      deq (convert_to (convert_from (dbl (10 ^ 6)) Newton) Newton) (dbl (10 ^ 6)))"
proof -
  have fx: "rnd False 1 = Finite False 1"
    by (rule rnd_cert [where e = 0 and n = 4503599627370496]) (simp_all add: pow2_def)
  have q0: "deq (convert_to (convert_from (dbl 0) Newton) Newton) (dbl 0)"
    unfolding Newton_val by (rule roundtrip_zero) simp
  have q1: "deq (convert_to (convert_from (dbl 1) Newton) Newton) (dbl 1)"
    unfolding Newton_val by (rule roundtrip_one [OF fx]) simp
  have q2: "deq (convert_to (convert_from (dbl (- 1)) Newton) Newton) (dbl (- 1))"
    unfolding Newton_val by (rule roundtrip_minus_one [OF fx]) simp
  have a1: "dbl (1 / 10 ^ 6) = Finite False (4722366482869645 / 2 ^ 72)"
    by (rule dbl_cert [where e = "-20" and n = 4722366482869645]) (simp_all add: pow2_def)
  have a2: "Finite False (4722366482869645 / 2 ^ 72) * Finite False 1
      = Finite False (4722366482869645 / 2 ^ 72)"
    by (rule mul_cert [where e = "-20" and n = 4722366482869645]) (simp_all add: pow2_def)
  have a3: "Finite False (4722366482869645 / 2 ^ 72) / Finite False 1
      = Finite False (4722366482869645 / 2 ^ 72)"
    by (rule div_cert [where e = "-20" and n = 4722366482869645]) (simp_all add: pow2_def)
  have qa: "deq (convert_to (convert_from (dbl (1 / 10 ^ 6)) Newton) Newton) (dbl (1 / 10 ^ 6))"
    unfolding convert_from_def convert_to_def Newton_val a1 a2 a3
    by simp
  have b1: "dbl (10 ^ 6) = Finite False 1000000"
    by (rule dbl_cert [where e = 19 and n = 8589934592000000]) (simp_all add: pow2_def)
  have b2: "Finite False 1000000 * Finite False 1 = Finite False 1000000"
    by (rule mul_cert [where e = 19 and n = 8589934592000000]) (simp_all add: pow2_def)
  have b3: "Finite False 1000000 / Finite False 1 = Finite False 1000000"
    by (rule div_cert [where e = 19 and n = 8589934592000000]) (simp_all add: pow2_def)
  have qb: "deq (convert_to (convert_from (dbl (10 ^ 6)) Newton) Newton) (dbl (10 ^ 6))"
    unfolding convert_from_def convert_to_def Newton_val b1 b2 b3
    by simp
  show ?thesis
    using q0 q1 q2 qa qb by simp
qed

lemma roundtrip_lbf:
  "deq (convert_to (convert_from (dbl 0) lbf) lbf) (dbl 0) \<and>
   deq (convert_to (convert_from (dbl 1) lbf) lbf) (dbl 1) \<and>
   deq (convert_to (convert_from (dbl (- 1)) lbf) lbf) (dbl (- 1)) \<and>
   deq (convert_to (convert_from (dbl (1 / 10 ^ 6)) lbf) lbf) (dbl (1 / 10 ^ 6)) \<and>
   (lbf \<noteq> pound \<and> lbf \<noteq> gravity \<longrightarrow>
      deq (convert_to (convert_from (dbl (10 ^ 6)) lbf) lbf) (dbl (10 ^ 6)))"
proof -
  have fx: "rnd False (5008252302237143 / 2 ^ 50) = Finite False (5008252302237143 / 2 ^ 50)"
    by (rule rnd_cert [where e = 2 and n = 5008252302237143]) (simp_all add: pow2_def)
  have q0: "deq (convert_to (convert_from (dbl 0) lbf) lbf) (dbl 0)"
    unfolding lbf_val by (rule roundtrip_zero) simp
  have q1: "deq (convert_to (convert_from (dbl 1) lbf) lbf) (dbl 1)"
    unfolding lbf_val by (rule roundtrip_one [OF fx]) simp
  have q2: "deq (convert_to (convert_from (dbl (- 1)) lbf) lbf) (dbl (- 1))"
    unfolding lbf_val by (rule roundtrip_minus_one [OF fx]) simp
  have a1: "dbl (1 / 10 ^ 6) = Finite False (4722366482869645 / 2 ^ 72)"
    by (rule dbl_cert [where e = "-20" and n = 4722366482869645]) (simp_all add: pow2_def)
  have a2: "Finite False (4722366482869645 / 2 ^ 72) * Finite False (5008252302237143 / 2 ^ 50)
      = Finite False (2625766583035307 / 2 ^ 69)"
    by (rule mul_cert [where e = "-18" and n = 5251533166070614]) (simp_all add: pow2_def)
  have a3: "Finite False (2625766583035307 / 2 ^ 69) / Finite False (5008252302237143 / 2 ^ 50)
      = Finite False (4722366482869645 / 2 ^ 72)"
    by (rule div_cert [where e = "-20" and n = 4722366482869645]) (simp_all add: pow2_def)
  have qa: "deq (convert_to (convert_from (dbl (1 / 10 ^ 6)) lbf) lbf) (dbl (1 / 10 ^ 6))"
    unfolding convert_from_def convert_to_def lbf_val a1 a2 a3
    by simp
  have b1: "dbl (10 ^ 6) = Finite False 1000000"
    by (rule dbl_cert [where e = 19 and n = 8589934592000000]) (simp_all add: pow2_def)
  have b2: "Finite False 1000000 * Finite False (5008252302237143 / 2 ^ 50)
      = Finite False (4776241590726035 / 2 ^ 30)"
    by (rule mul_cert [where e = 22 and n = 4776241590726035]) (simp_all add: pow2_def)
  have b3: "Finite False (4776241590726035 / 2 ^ 30) / Finite False (5008252302237143 / 2 ^ 50)
      = Finite False 1000000"
    by (rule div_cert [where e = 19 and n = 8589934592000000]) (simp_all add: pow2_def)
  have qb: "deq (convert_to (convert_from (dbl (10 ^ 6)) lbf) lbf) (dbl (10 ^ 6))"
    unfolding convert_from_def convert_to_def lbf_val b1 b2 b3
    by simp
  show ?thesis
    using q0 q1 q2 qa qb by simp
qed

lemma roundtrip_Pascal:
  "deq (convert_to (convert_from (dbl 0) Pascal) Pascal) (dbl 0) \<and>
   deq (convert_to (convert_from (dbl 1) Pascal) Pascal) (dbl 1) \<and>
   deq (convert_to (convert_from (dbl (- 1)) Pascal) Pascal) (dbl (- 1)) \<and>
   deq (convert_to (convert_from (dbl (1 / 10 ^ 6)) Pascal) Pascal) (dbl (1 / 10 ^ 6)) \<and>
   (Pascal \<noteq> pound \<and> Pascal \<noteq> gravity \<longrightarrow>
      deq (convert_to (convert_from (dbl (10 ^ 6)) Pascal) Pascal) (dbl (10 ^ 6)))"
proof -
  have fx: "rnd False 1 = Finite False 1"
    by (rule rnd_cert [where e = 0 and n = 4503599627370496]) (simp_all add: pow2_def)
  have q0: "deq (convert_to (convert_from (dbl 0) Pascal) Pascal) (dbl 0)"
    unfolding Pascal_val by (rule roundtrip_zero) simp
  have q1: "deq (convert_to (convert_from (dbl 1) Pascal) Pascal) (dbl 1)"
    unfolding Pascal_val by (rule roundtrip_one [OF fx]) simp
  have q2: "deq (convert_to (convert_from (dbl (- 1)) Pascal) Pascal) (dbl (- 1))"
    unfolding Pascal_val by (rule roundtrip_minus_one [OF fx]) simp
  have a1: "dbl (1 / 10 ^ 6) = Finite False (4722366482869645 / 2 ^ 72)"
    by (rule dbl_cert [where e = "-20" and n = 4722366482869645]) (simp_all add: pow2_def)
  have a2: "Finite False (4722366482869645 / 2 ^ 72) * Finite False 1
      = Finite False (4722366482869645 / 2 ^ 72)"
    by (rule mul_cert [where e = "-20" and n = 4722366482869645]) (simp_all add: pow2_def)
  have a3: "Finite False (4722366482869645 / 2 ^ 72) / Finite False 1
      = Finite False (4722366482869645 / 2 ^ 72)"
    by (rule div_cert [where e = "-20" and n = 4722366482869645]) (simp_all add: pow2_def)
  have qa: "deq (convert_to (convert_from (dbl (1 / 10 ^ 6)) Pascal) Pascal) (dbl (1 / 10 ^ 6))"
    unfolding convert_from_def convert_to_def Pascal_val a1 a2 a3
    by simp
  have b1: "dbl (10 ^ 6) = Finite False 1000000"
    by (rule dbl_cert [where e = 19 and n = 8589934592000000]) (simp_all add: pow2_def)
  have b2: "Finite False 1000000 * Finite False 1 = Finite False 1000000"
    by (rule mul_cert [where e = 19 and n = 8589934592000000]) (simp_all add: pow2_def)
  have b3: "Finite False 1000000 / Finite False 1 = Finite False 1000000"
    by (rule div_cert [where e = 19 and n = 8589934592000000]) (simp_all add: pow2_def)
  have qb: "deq (convert_to (convert_from (dbl (10 ^ 6)) Pascal) Pascal) (dbl (10 ^ 6))"
    unfolding convert_from_def convert_to_def Pascal_val b1 b2 b3
    by simp
  show ?thesis
    using q0 q1 q2 qa qb by simp
qed

lemma roundtrip_barsa:
  "deq (convert_to (convert_from (dbl 0) barsa) barsa) (dbl 0) \<and>
   deq (convert_to (convert_from (dbl 1) barsa) barsa) (dbl 1) \<and>
   deq (convert_to (convert_from (dbl (- 1)) barsa) barsa) (dbl (- 1)) \<and>
   deq (convert_to (convert_from (dbl (1 / 10 ^ 6)) barsa) barsa) (dbl (1 / 10 ^ 6)) \<and>
   (barsa \<noteq> pound \<and> barsa \<noteq> gravity \<longrightarrow>
      deq (convert_to (convert_from (dbl (10 ^ 6)) barsa) barsa) (dbl (10 ^ 6)))"
proof -
  have fx: "rnd False 100000 = Finite False 100000"
    by (rule rnd_cert [where e = 16 and n = 6871947673600000]) (simp_all add: pow2_def)
  have q0: "deq (convert_to (convert_from (dbl 0) barsa) barsa) (dbl 0)"
    unfolding barsa_val by (rule roundtrip_zero) simp
  have q1: "deq (convert_to (convert_from (dbl 1) barsa) barsa) (dbl 1)"
    unfolding barsa_val by (rule roundtrip_one [OF fx]) simp
  have q2: "deq (convert_to (convert_from (dbl (- 1)) barsa) barsa) (dbl (- 1))"
    unfolding barsa_val by (rule roundtrip_minus_one [OF fx]) simp
  have a1: "dbl (1 / 10 ^ 6) = Finite False (4722366482869645 / 2 ^ 72)"
    by (rule dbl_cert [where e = "-20" and n = 4722366482869645]) (simp_all add: pow2_def)
  have a2: "Finite False (4722366482869645 / 2 ^ 72) * Finite False 100000
      = Finite False (7205759403792793 / 2 ^ 56)"
    by (rule mul_cert [where e = "-4" and n = 7205759403792793]) (simp_all add: pow2_def)
  have a3: "Finite False (7205759403792793 / 2 ^ 56) / Finite False 100000
      = Finite False (4722366482869645 / 2 ^ 72)"
    by (rule div_cert [where e = "-20" and n = 4722366482869645]) (simp_all add: pow2_def)
  have qa: "deq (convert_to (convert_from (dbl (1 / 10 ^ 6)) barsa) barsa) (dbl (1 / 10 ^ 6))"
    unfolding convert_from_def convert_to_def barsa_val a1 a2 a3
    by simp
  have b1: "dbl (10 ^ 6) = Finite False 1000000"
    by (rule dbl_cert [where e = 19 and n = 8589934592000000]) (simp_all add: pow2_def)
  have b2: "Finite False 1000000 * Finite False 100000 = Finite False 100000000000"
    by (rule mul_cert [where e = 36 and n = 6553600000000000]) (simp_all add: pow2_def)
  have b3: "Finite False 100000000000 / Finite False 100000 = Finite False 1000000"
    by (rule div_cert [where e = 19 and n = 8589934592000000]) (simp_all add: pow2_def)
  have qb: "deq (convert_to (convert_from (dbl (10 ^ 6)) barsa) barsa) (dbl (10 ^ 6))"
    unfolding convert_from_def convert_to_def barsa_val b1 b2 b3
    by simp
  show ?thesis
    using q0 q1 q2 qa qb by simp
qed

lemma roundtrip_atm:
  "deq (convert_to (convert_from (dbl 0) atm) atm) (dbl 0) \<and>
   deq (convert_to (convert_from (dbl 1) atm) atm) (dbl 1) \<and>
   deq (convert_to (convert_from (dbl (- 1)) atm) atm) (dbl (- 1)) \<and>
   deq (convert_to (convert_from (dbl (1 / 10 ^ 6)) atm) atm) (dbl (1 / 10 ^ 6)) \<and>
   (atm \<noteq> pound \<and> atm \<noteq> gravity \<longrightarrow>
      deq (convert_to (convert_from (dbl (10 ^ 6)) atm) atm) (dbl (10 ^ 6)))"
proof -
  have fx: "rnd False 101325 = Finite False 101325"
    by (rule rnd_cert [where e = 16 and n = 6963000980275200]) (simp_all add: pow2_def)
  have q0: "deq (convert_to (convert_from (dbl 0) atm) atm) (dbl 0)"
    unfolding atm_val by (rule roundtrip_zero) simp
  have q1: "deq (convert_to (convert_from (dbl 1) atm) atm) (dbl 1)"
    unfolding atm_val by (rule roundtrip_one [OF fx]) simp
  have q2: "deq (convert_to (convert_from (dbl (- 1)) atm) atm) (dbl (- 1))"
    unfolding atm_val by (rule roundtrip_minus_one [OF fx]) simp
  have a1: "dbl (1 / 10 ^ 6) = Finite False (4722366482869645 / 2 ^ 72)"
    by (rule dbl_cert [where e = "-20" and n = 4722366482869645]) (simp_all add: pow2_def)
  have a2: "Finite False (4722366482869645 / 2 ^ 72) * Finite False 101325
      = Finite False (912654464486631 / 2 ^ 53)"
    by (rule mul_cert [where e = "-4" and n = 7301235715893048]) (simp_all add: pow2_def)
  have a3: "Finite False (912654464486631 / 2 ^ 53) / Finite False 101325
      = Finite False (4722366482869645 / 2 ^ 72)"
    by (rule div_cert [where e = "-20" and n = 4722366482869645]) (simp_all add: pow2_def)
  have qa: "deq (convert_to (convert_from (dbl (1 / 10 ^ 6)) atm) atm) (dbl (1 / 10 ^ 6))"
    unfolding convert_from_def convert_to_def atm_val a1 a2 a3
    by simp
  have b1: "dbl (10 ^ 6) = Finite False 1000000"
    by (rule dbl_cert [where e = 19 and n = 8589934592000000]) (simp_all add: pow2_def)
  have b2: "Finite False 1000000 * Finite False 101325 = Finite False 101325000000"
    by (rule mul_cert [where e = 36 and n = 6640435200000000]) (simp_all add: pow2_def)
  have b3: "Finite False 101325000000 / Finite False 101325 = Finite False 1000000"
    by (rule div_cert [where e = 19 and n = 8589934592000000]) (simp_all add: pow2_def)
  have qb: "deq (convert_to (convert_from (dbl (10 ^ 6)) atm) atm) (dbl (10 ^ 6))"
    unfolding convert_from_def convert_to_def atm_val b1 b2 b3
    by simp
  show ?thesis
    using q0 q1 q2 qa qb by simp
qed

lemma roundtrip_psia:
  "deq (convert_to (convert_from (dbl 0) psia) psia) (dbl 0) \<and>
   deq (convert_to (convert_from (dbl 1) psia) psia) (dbl 1) \<and>
   deq (convert_to (convert_from (dbl (- 1)) psia) psia) (dbl (- 1)) \<and>
   deq (convert_to (convert_from (dbl (1 / 10 ^ 6)) psia) psia) (dbl (1 / 10 ^ 6)) \<and>
   (psia \<noteq> pound \<and> psia \<noteq> gravity \<longrightarrow>
      deq (convert_to (convert_from (dbl (10 ^ 6)) psia) psia) (dbl (10 ^ 6)))"
proof -
  have fx: "rnd False (7580865814531991 / 2 ^ 40) = Finite False (7580865814531991 / 2 ^ 40)"
    by (rule rnd_cert [where e = 12 and n = 7580865814531991]) (simp_all add: pow2_def)
  have q0: "deq (convert_to (convert_from (dbl 0) psia) psia) (dbl 0)"
    unfolding psia_val by (rule roundtrip_zero) simp
  have q1: "deq (convert_to (convert_from (dbl 1) psia) psia) (dbl 1)"
    unfolding psia_val by (rule roundtrip_one [OF fx]) simp
  have q2: "deq (convert_to (convert_from (dbl (- 1)) psia) psia) (dbl (- 1))"
    unfolding psia_val by (rule roundtrip_minus_one [OF fx]) simp
  have a1: "dbl (1 / 10 ^ 6) = Finite False (4722366482869645 / 2 ^ 72)"
    by (rule dbl_cert [where e = "-20" and n = 4722366482869645]) (simp_all add: pow2_def)
  have a2: "Finite False (4722366482869645 / 2 ^ 72) * Finite False (7580865814531991 / 2 ^ 40)
      = Finite False (7949113952338697 / 2 ^ 60)"
    by (rule mul_cert [where e = "-8" and n = 7949113952338697]) (simp_all add: pow2_def)
  have a3: "Finite False (7949113952338697 / 2 ^ 60) / Finite False (7580865814531991 / 2 ^ 40)
      = Finite False (4722366482869645 / 2 ^ 72)"
    by (rule div_cert [where e = "-20" and n = 4722366482869645]) (simp_all add: pow2_def)
  have qa: "deq (convert_to (convert_from (dbl (1 / 10 ^ 6)) psia) psia) (dbl (1 / 10 ^ 6))"
    unfolding convert_from_def convert_to_def psia_val a1 a2 a3
    by simp
  have b1: "dbl (10 ^ 6) = Finite False 1000000"
    by (rule dbl_cert [where e = 19 and n = 8589934592000000]) (simp_all add: pow2_def)
  have b2: "Finite False 1000000 * Finite False (7580865814531991 / 2 ^ 40)
      = Finite False (3614838511720653 / 2 ^ 19)"
    by (rule mul_cert [where e = 32 and n = 7229677023441306]) (simp_all add: pow2_def)
  have b3: "Finite False (3614838511720653 / 2 ^ 19) / Finite False (7580865814531991 / 2 ^ 40)
      = Finite False 1000000"
    by (rule div_cert [where e = 19 and n = 8589934592000000]) (simp_all add: pow2_def)
  have qb: "deq (convert_to (convert_from (dbl (10 ^ 6)) psia) psia) (dbl (10 ^ 6))"
    unfolding convert_from_def convert_to_def psia_val b1 b2 b3
    by simp
  show ?thesis
    using q0 q1 q2 qa qb by simp
qed

lemma roundtrip_Pas:
  "deq (convert_to (convert_from (dbl 0) Pas) Pas) (dbl 0) \<and>
   deq (convert_to (convert_from (dbl 1) Pas) Pas) (dbl 1) \<and>
   deq (convert_to (convert_from (dbl (- 1)) Pas) Pas) (dbl (- 1)) \<and>
   deq (convert_to (convert_from (dbl (1 / 10 ^ 6)) Pas) Pas) (dbl (1 / 10 ^ 6)) \<and>
   (Pas \<noteq> pound \<and> Pas \<noteq> gravity \<longrightarrow>
      deq (convert_to (convert_from (dbl (10 ^ 6)) Pas) Pas) (dbl (10 ^ 6)))"
proof -
  have fx: "rnd False 1 = Finite False 1"
    by (rule rnd_cert [where e = 0 and n = 4503599627370496]) (simp_all add: pow2_def)
  have q0: "deq (convert_to (convert_from (dbl 0) Pas) Pas) (dbl 0)"
    unfolding Pas_val by (rule roundtrip_zero) simp
  have q1: "deq (convert_to (convert_from (dbl 1) Pas) Pas) (dbl 1)"
    unfolding Pas_val by (rule roundtrip_one [OF fx]) simp
  have q2: "deq (convert_to (convert_from (dbl (- 1)) Pas) Pas) (dbl (- 1))"
    unfolding Pas_val by (rule roundtrip_minus_one [OF fx]) simp
  have a1: "dbl (1 / 10 ^ 6) = Finite False (4722366482869645 / 2 ^ 72)"
    by (rule dbl_cert [where e = "-20" and n = 4722366482869645]) (simp_all add: pow2_def)
  have a2: "Finite False (4722366482869645 / 2 ^ 72) * Finite False 1
      = Finite False (4722366482869645 / 2 ^ 72)"
    by (rule mul_cert [where e = "-20" and n = 4722366482869645]) (simp_all add: pow2_def)
  have a3: "Finite False (4722366482869645 / 2 ^ 72) / Finite False 1
      = Finite False (4722366482869645 / 2 ^ 72)"
    by (rule div_cert [where e = "-20" and n = 4722366482869645]) (simp_all add: pow2_def)
  have qa: "deq (convert_to (convert_from (dbl (1 / 10 ^ 6)) Pas) Pas) (dbl (1 / 10 ^ 6))"
    unfolding convert_from_def convert_to_def Pas_val a1 a2 a3
    by simp
  have b1: "dbl (10 ^ 6) = Finite False 1000000"
    by (rule dbl_cert [where e = 19 and n = 8589934592000000]) (simp_all add: pow2_def)
  have b2: "Finite False 1000000 * Finite False 1 = Finite False 1000000"
    by (rule mul_cert [where e = 19 and n = 8589934592000000]) (simp_all add: pow2_def)
  have b3: "Finite False 1000000 / Finite False 1 = Finite False 1000000"
    by (rule div_cert [where e = 19 and n = 8589934592000000]) (simp_all add: pow2_def)
  have qb: "deq (convert_to (convert_from (dbl (10 ^ 6)) Pas) Pas) (dbl (10 ^ 6))"
    unfolding convert_from_def convert_to_def Pas_val b1 b2 b3
    by simp
  show ?thesis
    using q0 q1 q2 qa qb by simp
qed

lemma roundtrip_Poise:
  "deq (convert_to (convert_from (dbl 0) Poise) Poise) (dbl 0) \<and>
   deq (convert_to (convert_from (dbl 1) Poise) Poise) (dbl 1) \<and>
   deq (convert_to (convert_from (dbl (- 1)) Poise) Poise) (dbl (- 1)) \<and>
   deq (convert_to (convert_from (dbl (1 / 10 ^ 6)) Poise) Poise) (dbl (1 / 10 ^ 6)) \<and>
   (Poise \<noteq> pound \<and> Poise \<noteq> gravity \<longrightarrow>
      deq (convert_to (convert_from (dbl (10 ^ 6)) Poise) Poise) (dbl (10 ^ 6)))"
proof -
  have fx: "rnd False (3602879701896397 / 2 ^ 55) = Finite False (3602879701896397 / 2 ^ 55)"
    by (rule rnd_cert [where e = "-4" and n = 7205759403792794]) (simp_all add: pow2_def)
  have q0: "deq (convert_to (convert_from (dbl 0) Poise) Poise) (dbl 0)"
    unfolding Poise_val by (rule roundtrip_zero) simp
  have q1: "deq (convert_to (convert_from (dbl 1) Poise) Poise) (dbl 1)"
    unfolding Poise_val by (rule roundtrip_one [OF fx]) simp
  have q2: "deq (convert_to (convert_from (dbl (- 1)) Poise) Poise) (dbl (- 1))"
    unfolding Poise_val by (rule roundtrip_minus_one [OF fx]) simp
  have a1: "dbl (1 / 10 ^ 6) = Finite False (4722366482869645 / 2 ^ 72)"
    by (rule dbl_cert [where e = "-20" and n = 4722366482869645]) (simp_all add: pow2_def)
  have a2: "Finite False (4722366482869645 / 2 ^ 72) * Finite False (3602879701896397 / 2 ^ 55)
      = Finite False (944473296573929 / 2 ^ 73)"
    by (rule mul_cert [where e = "-24" and n = 7555786372591432]) (simp_all add: pow2_def)
  have a3: "Finite False (944473296573929 / 2 ^ 73) / Finite False (3602879701896397 / 2 ^ 55)
      = Finite False (4722366482869645 / 2 ^ 72)"
    by (rule div_cert [where e = "-20" and n = 4722366482869645]) (simp_all add: pow2_def)
  have qa: "deq (convert_to (convert_from (dbl (1 / 10 ^ 6)) Poise) Poise) (dbl (1 / 10 ^ 6))"
    unfolding convert_from_def convert_to_def Poise_val a1 a2 a3
    by simp
  have b1: "dbl (10 ^ 6) = Finite False 1000000"
    by (rule dbl_cert [where e = 19 and n = 8589934592000000]) (simp_all add: pow2_def)
  have b2: "Finite False 1000000 * Finite False (3602879701896397 / 2 ^ 55) = Finite False 100000"
    by (rule mul_cert [where e = 16 and n = 6871947673600000]) (simp_all add: pow2_def)
  have b3: "Finite False 100000 / Finite False (3602879701896397 / 2 ^ 55) = Finite False 1000000"
    by (rule div_cert [where e = 19 and n = 8589934592000000]) (simp_all add: pow2_def)
  have qb: "deq (convert_to (convert_from (dbl (10 ^ 6)) Poise) Poise) (dbl (10 ^ 6))"
    unfolding convert_from_def convert_to_def Poise_val b1 b2 b3
    by simp
  show ?thesis
    using q0 q1 q2 qa qb by simp
qed

lemma roundtrip_darcy:
  "deq (convert_to (convert_from (dbl 0) darcy) darcy) (dbl 0) \<and>
   deq (convert_to (convert_from (dbl 1) darcy) darcy) (dbl 1) \<and>
   deq (convert_to (convert_from (dbl (- 1)) darcy) darcy) (dbl (- 1)) \<and>
   deq (convert_to (convert_from (dbl (1 / 10 ^ 6)) darcy) darcy) (dbl (1 / 10 ^ 6)) \<and>
   (darcy \<noteq> pound \<and> darcy \<noteq> gravity \<longrightarrow>
      deq (convert_to (convert_from (dbl (10 ^ 6)) darcy) darcy) (dbl (10 ^ 6)))"
proof -
  have fx: "rnd False (1221751827570077 / 2 ^ 90) = Finite False (1221751827570077 / 2 ^ 90)"
    by (rule rnd_cert [where e = "-40" and n = 4887007310280308]) (simp_all add: pow2_def)
  have q0: "deq (convert_to (convert_from (dbl 0) darcy) darcy) (dbl 0)"
    unfolding darcy_val by (rule roundtrip_zero) simp
  have q1: "deq (convert_to (convert_from (dbl 1) darcy) darcy) (dbl 1)"
    unfolding darcy_val by (rule roundtrip_one [OF fx]) simp
  have q2: "deq (convert_to (convert_from (dbl (- 1)) darcy) darcy) (dbl (- 1))"
    unfolding darcy_val by (rule roundtrip_minus_one [OF fx]) simp
  have a1: "dbl (1 / 10 ^ 6) = Finite False (4722366482869645 / 2 ^ 72)"
    by (rule dbl_cert [where e = "-20" and n = 4722366482869645]) (simp_all add: pow2_def)
  have a2: "Finite False (4722366482869645 / 2 ^ 72) * Finite False (1221751827570077 / 2 ^ 90)
      = Finite False (1281099644346121 / 2 ^ 110)"
    by (rule mul_cert [where e = "-60" and n = 5124398577384484]) (simp_all add: pow2_def)
  have a3: "Finite False (1281099644346121 / 2 ^ 110) / Finite False (1221751827570077 / 2 ^ 90)
      = Finite False (4722366482869645 / 2 ^ 72)"
    by (rule div_cert [where e = "-20" and n = 4722366482869645]) (simp_all add: pow2_def)
  have qa: "deq (convert_to (convert_from (dbl (1 / 10 ^ 6)) darcy) darcy) (dbl (1 / 10 ^ 6))"
    unfolding convert_from_def convert_to_def darcy_val a1 a2 a3
    by simp
  have b1: "dbl (10 ^ 6) = Finite False 1000000"
    by (rule dbl_cert [where e = 19 and n = 8589934592000000]) (simp_all add: pow2_def)
  have b2: "Finite False 1000000 * Finite False (1221751827570077 / 2 ^ 90)
      = Finite False (4660613355903919 / 2 ^ 72)"
    by (rule mul_cert [where e = "-20" and n = 4660613355903919]) (simp_all add: pow2_def)
  have b3: "Finite False (4660613355903919 / 2 ^ 72) / Finite False (1221751827570077 / 2 ^ 90)
      = Finite False 1000000"
    by (rule div_cert [where e = 19 and n = 8589934592000000]) (simp_all add: pow2_def)
  have qb: "deq (convert_to (convert_from (dbl (10 ^ 6)) darcy) darcy) (dbl (10 ^ 6))"
    unfolding convert_from_def convert_to_def darcy_val b1 b2 b3
    by simp
  show ?thesis
    using q0 q1 q2 qa qb by simp
qed

lemma roundtrip_1e6_pound_value: "convert_to (convert_from (dbl (10 ^ 6)) pound) pound
    = Finite False (8589934591999999 / 2 ^ 33)"
proof -
  have s1: "dbl (10 ^ 6) = Finite False 1000000"
    by (rule dbl_cert [where e = 19 and n = 8589934592000000]) (simp_all add: pow2_def)
  have s2: "Finite False 1000000 * Finite False (8171193714040401 / 2 ^ 54)
      = Finite False (3896328789730263 / 2 ^ 33)"
    by (rule mul_cert [where e = 18 and n = 7792657579460526]) (simp_all add: pow2_def)
  have s3: "Finite False (3896328789730263 / 2 ^ 33) / Finite False (8171193714040401 / 2 ^ 54)
      = Finite False (8589934591999999 / 2 ^ 33)"
    by (rule div_cert [where e = 19 and n = 8589934591999999]) (simp_all add: pow2_def)
  show ?thesis
    by (simp only: square_def cubic_def convert_from_def convert_to_def pound_val s1 s2 s3)
qed

lemma roundtrip_1e6_gravity_value: "convert_to (convert_from (dbl (10 ^ 6)) gravity) gravity
    = Finite False (8589934592000001 / 2 ^ 33)"
proof -
  have s1: "dbl (10 ^ 6) = Finite False 1000000"
    by (rule dbl_cert [where e = 19 and n = 8589934592000000]) (simp_all add: pow2_def)
  have s2: "Finite False 1000000 * Finite False (5520653160719109 / 2 ^ 49)
      = Finite False 9806650"
    by (rule mul_cert [where e = 23 and n = 5264905129164800]) (simp_all add: pow2_def)
  have s3: "Finite False 9806650 / Finite False (5520653160719109 / 2 ^ 49)
      = Finite False (8589934592000001 / 2 ^ 33)"
    by (rule div_cert [where e = 19 and n = 8589934592000001]) (simp_all add: pow2_def)
  show ?thesis
    by (simp only: square_def cubic_def convert_from_def convert_to_def gravity_val s1 s2 s3)
qed


lemma all_constants_finite_nonzero:
  "\<forall>u \<in> set all_constants. is_finite u \<and> \<not> is_zero u"
  unfolding all_constants_def prefix_table_def unit_table_def scratch_table_def units_table_def
  unfolding micro_val milli_val centi_val deci_val kilo_val mega_val giga_val meter_val
    inch_val feet_val second_val minute_val hour_val day_val year_val kilogram_val
    pound_val gravity_val Newton_val lbf_val Pascal_val barsa_val atm_val psia_val
    Pas_val Poise_val darcy_val p_grad_val area_val flux_val velocity_val visc_val
    MILLIDARCY_val VISCOSITY_UNIT_val DAYS2SECONDS_val FEET_val WELL_INDEX_UNIT_val
  by simp

section \<open>The claims about the constants\<close>

text \<open>
  C4: the base units meter, second and kilogram are each 1.0, and converting 1.0 from a
  base unit gives 1.0.
\<close>

theorem base_units_identity:
  "val meter = 1 \<and> val second = 1 \<and> val kilogram = 1 \<and>
   deq meter (dbl 1) \<and> deq second (dbl 1) \<and> deq kilogram (dbl 1) \<and>
   deq (convert_from (dbl 1) meter) (dbl 1) \<and>
   deq (convert_from (dbl 1) second) (dbl 1) \<and>
   deq (convert_from (dbl 1) kilogram) (dbl 1)"
  unfolding from_1_meter from_1_second from_1_kilogram
  unfolding meter_val second_val kilogram_val lit_1
  by simp

text \<open>
  C7: Newton, Pascal and Pas, computed as kilogram*meter/square(second),
  Newton/square(meter) and Pascal*second, are each exactly 1.0.
\<close>

theorem si_derived_units_one:
  "Newton = kilogram * meter / square second \<and> Pascal = Newton / square meter \<and>
   Pas = Pascal * second \<and>
   deq Newton (dbl 1) \<and> deq Pascal (dbl 1) \<and> deq Pas (dbl 1) \<and>
   val Newton = 1 \<and> val Pascal = 1 \<and> val Pas = 1"
proof -
  have "deq Newton (dbl 1) \<and> deq Pascal (dbl 1) \<and> deq Pas (dbl 1) \<and>
    val Newton = 1 \<and> val Pascal = 1 \<and> val Pas = 1"
    unfolding Newton_val Pascal_val Pas_val lit_1 by simp
  then show ?thesis
    using Newton_def Pascal_def Pas_def by blast
qed

text \<open>
  C6: the dependency chain of pressure and force holds numerically:
  psia == lbf / square(inch), lbf == pound * gravity, pound == 0.45359237 * kilogram and
  gravity == 9.80665 * meter / square(second).
\<close>

theorem pressure_force_chain:
  "deq psia (lbf / square inch) \<and> deq lbf (pound * gravity) \<and>
   deq pound (dbl (45359237 / 10 ^ 8) * kilogram) \<and>
   deq gravity (dbl (980665 / 10 ^ 5) * meter / square second)"
  unfolding psia_def [symmetric] lbf_def [symmetric] pound_def [symmetric]
    gravity_def [symmetric]
  unfolding psia_val lbf_val pound_val gravity_val
  by simp

text \<open>
  C3: the constant feet of the table, 12 * inch with value 0.3048, is not equal to the
  constant FEET = 0.30479999798832 of the namespace \<^verbatim>\<open>units\<close>.
\<close>

theorem feet_differs_from_FEET:
  "\<not> deq feet FEET \<and> feet = dbl 12 * inch \<and> deq feet (dbl (3048 / 10 ^ 4)) \<and>
   FEET = dbl (30479999798832 / 10 ^ 14)"
proof -
  have "\<not> deq feet FEET \<and> deq feet (dbl (3048 / 10 ^ 4))"
    unfolding feet_val FEET_val lit_0_3048 by simp
  then show ?thesis
    using feet_def FEET_def by blast
qed

text \<open>
  C10: the two groups of constants agree on the length of a day, although they disagree
  on feet: day (24 * hour, that is 24 * (60 * (60 * second))) and DAYS2SECONDS are both
  86400, and WELL_INDEX_UNIT == VISCOSITY_UNIT / (DAYS2SECONDS * 1e5) == 1e-3 / 8.64e9.
\<close>

theorem day_agrees_with_DAYS2SECONDS:
  "deq day DAYS2SECONDS \<and> deq day (dbl 86400) \<and> deq DAYS2SECONDS (dbl 86400) \<and>
   deq day (dbl 24 * (dbl 60 * (dbl 60 * second))) \<and>
   WELL_INDEX_UNIT = VISCOSITY_UNIT / (DAYS2SECONDS * dbl (10 ^ 5)) \<and>
   deq WELL_INDEX_UNIT (dbl (1 / 10 ^ 3) / dbl (864 * 10 ^ 7)) \<and>
   \<not> deq feet FEET"
proof -
  have "deq day DAYS2SECONDS \<and> deq day (dbl 86400) \<and> deq DAYS2SECONDS (dbl 86400) \<and>
    deq day (dbl 24 * (dbl 60 * (dbl 60 * second))) \<and>
    deq WELL_INDEX_UNIT (dbl (1 / 10 ^ 3) / dbl (864 * 10 ^ 7)) \<and>
    \<not> deq feet FEET"
    unfolding day_unfolded well_index_literals
    unfolding day_val DAYS2SECONDS_val lit_86400 WELL_INDEX_UNIT_val feet_val FEET_val
    by simp
  then show ?thesis
    using WELL_INDEX_UNIT_def by blast
qed

text \<open>
  C2: darcy, computed as (velocity * visc) / p_grad from the five scratch constants
  p_grad = atm / (centi*meter), area = square(centi*meter),
  flux = cubic(centi*meter) / second, velocity = flux / area and visc = centi*Poise,
  equals 9.869232667160130e-13 to at least 12 significant digits: it is the double of that
  literal, and its value differs from the decimal by less than half a unit of the twelfth
  significant digit.
\<close>

theorem darcy_value:
  "darcy = (velocity * visc) / p_grad \<and> p_grad = atm / (centi * meter) \<and>
   area = square (centi * meter) \<and> flux = cubic (centi * meter) / second \<and>
   velocity = flux / area \<and> visc = centi * Poise \<and>
   deq darcy (dbl (9869232667160130 / 10 ^ 28)) \<and>
   \<bar>val darcy - 9869232667160130 / 10 ^ 28\<bar> < 5 / 10 ^ 25"
proof -
  have "deq darcy (dbl (9869232667160130 / 10 ^ 28)) \<and>
    \<bar>val darcy - 9869232667160130 / 10 ^ 28\<bar> < 5 / 10 ^ 25"
    unfolding darcy_val lit_darcy by simp
  then show ?thesis
    using darcy_def p_grad_def area_def flux_def velocity_def visc_def by blast
qed

text \<open>
  C9: square(v) is v * v and cubic(v) is v * v * v for every value v of every type with a
  multiplication; in particular square(3.0) == 9.0, cubic(2.0) == 8.0 and
  square(-2.0) == 4.0.
\<close>

theorem square_cubic_spec:
  "square (v :: 'a :: times) = v * v \<and> cubic v = v * v * v \<and>
   deq (square (dbl 3)) (dbl 9) \<and> deq (cubic (dbl 2)) (dbl 8) \<and>
   deq (square (dbl (- 2))) (dbl 4)"
proof -
  have "deq (square (dbl 3)) (dbl 9) \<and> deq (cubic (dbl 2)) (dbl 8) \<and>
    deq (square (dbl (- 2))) (dbl 4)"
    unfolding square_3 cubic_2 square_minus_2
    unfolding lit_9 lit_8 lit_4
    by simp
  then show ?thesis
    by (simp add: square_def cubic_def)
qed

text \<open>
  C8, as stated: inch == 0.0254.  The comparison is false: the product 2.54 * centi is
  rounded to the double next above the double of the literal 0.0254.
\<close>

theorem inch_literal_counterexample: "\<not> deq inch (dbl (254 / 10 ^ 4))"
  unfolding inch_val lit_0_0254 by simp

text \<open>
  C8, amended: inch, computed as 2.54 * centi * meter, is the double one unit in the last
  place (2 to the power -58) above the double of the literal 0.0254, within that distance
  of the decimal 0.0254, and feet == 12 * inch.
\<close>

theorem inch_feet_values:
  "inch = dbl (254 / 100) * centi * meter \<and>
   val inch - val (dbl (254 / 10 ^ 4)) = 1 / 2 ^ 58 \<and>
   \<bar>val inch - 254 / 10 ^ 4\<bar> < 1 / 2 ^ 58 \<and>
   deq feet (dbl 12 * inch)"
proof -
  have "val inch - val (dbl (254 / 10 ^ 4)) = 1 / 2 ^ 58 \<and>
    \<bar>val inch - 254 / 10 ^ 4\<bar> < 1 / 2 ^ 58"
    unfolding inch_val lit_0_0254 by simp
  moreover have "deq feet (dbl 12 * inch)"
    unfolding feet_def [symmetric] unfolding feet_val by simp
  ultimately show ?thesis
    using inch_def by blast
qed

text \<open>
  C5, as stated: to(quantity, unit) produces an infinity or NaN only when unit is zero.
  The quotient of the finite quantity 1e307 by the table constant inch, which is not zero,
  overflows to infinity.
\<close>

theorem to_overflow_counterexample:
  "is_inf (convert_to (dbl (10 ^ 307)) inch) \<and> \<not> is_zero inch"
  unfolding lit_1e307 inch_val convert_to_def divide_double_def
  by (simp add: is_inf_rnd_iff pow2_def)

text \<open>
  C5, amended: no constant of the header is zero (or infinite, or NaN), so for every
  quantity q and every constant u of the header, to(q, u) never takes the division-by-zero
  branch: for a finite q it is the correctly rounded quotient of the magnitudes with the
  sign of the quotient.  The result is NaN exactly when q is NaN, and an infinity exactly
  when q is an infinity or the quotient of a finite q overflows, that is when the quotient
  of the magnitudes is at least 2^1024 - 2^970.
\<close>

theorem to_table_unit_not_by_zero:
  "\<forall>u \<in> set all_constants. is_finite u \<and> \<not> is_zero u \<and>
     (\<forall>q. (is_finite q \<longrightarrow>
             convert_to q u = rnd (sign_of q \<noteq> sign_of u) (mag q / mag u)) \<and>
          (is_nan (convert_to q u) \<longleftrightarrow> is_nan q) \<and>
          (is_inf (convert_to q u) \<longleftrightarrow>
             is_inf q \<or> is_finite q \<and> pow2 1024 - pow2 970 \<le> mag q / mag u))"
proof
  fix u
  assume "u \<in> set all_constants"
  then have u: "is_finite u \<and> \<not> is_zero u"
    using all_constants_finite_nonzero by blast
  then obtain t b where ub: "u = Finite t b" "b \<noteq> 0"
    by (cases u) simp_all
  have "(is_finite q \<longrightarrow>
             convert_to q u = rnd (sign_of q \<noteq> sign_of u) (mag q / mag u)) \<and>
          (is_nan (convert_to q u) \<longleftrightarrow> is_nan q) \<and>
          (is_inf (convert_to q u) \<longleftrightarrow>
             is_inf q \<or> is_finite q \<and> pow2 1024 - pow2 970 \<le> mag q / mag u)" for q
    using ub
    by (cases q) (simp_all add: convert_to_def divide_double_def rnd_not_nan is_inf_rnd_iff)
  then show "is_finite u \<and> \<not> is_zero u \<and>
     (\<forall>q. (is_finite q \<longrightarrow>
             convert_to q u = rnd (sign_of q \<noteq> sign_of u) (mag q / mag u)) \<and>
          (is_nan (convert_to q u) \<longleftrightarrow> is_nan q) \<and>
          (is_inf (convert_to q u) \<longleftrightarrow>
             is_inf q \<or> is_finite q \<and> pow2 1024 - pow2 970 \<le> mag q / mag u))"
    using u by blast
qed

theorem to_table_unit_not_by_zero_witness:
  "psia \<in> set all_constants \<and> is_finite (dbl 1) \<and> \<not> is_zero psia \<and>
   convert_to (dbl 1) psia = rnd (sign_of (dbl 1) \<noteq> sign_of psia) (mag (dbl 1) / mag psia) \<and>
   \<not> is_nan (convert_to (dbl 1) psia) \<and> \<not> is_inf (convert_to (dbl 1) psia)"
proof -
  have m: "psia \<in> set all_constants"
    by (simp add: all_constants_def unit_table_def)
  have f: "is_finite (dbl 1) \<and> \<not> is_nan (dbl 1) \<and> \<not> is_inf (dbl 1)"
    unfolding lit_1 by simp
  have "\<not> pow2 1024 - pow2 970 \<le> mag (dbl 1) / mag psia"
    unfolding lit_1 psia_val by (simp add: pow2_def)
  then show ?thesis
    using to_table_unit_not_by_zero m f by blast
qed

text \<open>
  C1, as stated: to(from(q, u), u) == q for every table constant u and every quantity q,
  in particular for q = 1e6.  With u = pound the round trip of 1e6 returns the double next
  below 1e6.
\<close>

theorem roundtrip_counterexample:
  "pound \<in> set unit_table \<and>
   \<not> deq (convert_to (convert_from (dbl (10 ^ 6)) pound) pound) (dbl (10 ^ 6))"
  unfolding roundtrip_1e6_pound_value unfolding lit_1e6
  by (simp add: unit_table_def)

text \<open>
  C1, amended: for every constant u of the table (prefixes and units),
  to(from(q, u), u) == q holds for q in {0.0, 1.0, -1.0, 1e-6}, and for q = 1e6 when u is
  neither pound nor gravity.  For arbitrary finite q and u the round trip is exact only up
  to the two roundings: when q and the product q * u are in the normal range (magnitudes
  from 2^-1021, respectively 2^-1022, and below 2^1023), the result is finite, has the
  sign of q, and differs from q by at most |q| * (2^-52 + 2^-106).
\<close>

theorem roundtrip_law:
  "(\<forall>u \<in> set (prefix_table @ unit_table).
     deq (convert_to (convert_from (dbl 0) u) u) (dbl 0) \<and>
     deq (convert_to (convert_from (dbl 1) u) u) (dbl 1) \<and>
     deq (convert_to (convert_from (dbl (- 1)) u) u) (dbl (- 1)) \<and>
     deq (convert_to (convert_from (dbl (1 / 10 ^ 6)) u) u) (dbl (1 / 10 ^ 6)) \<and>
     (u \<noteq> pound \<and> u \<noteq> gravity \<longrightarrow>
        deq (convert_to (convert_from (dbl (10 ^ 6)) u) u) (dbl (10 ^ 6)))) \<and>
   (\<forall>q u. is_finite q \<and> is_finite u \<and> 0 < mag u \<and>
      pow2 (- 1021) \<le> mag q \<and> mag q < pow2 1023 \<and>
      pow2 (- 1022) \<le> mag q * mag u \<and> mag q * mag u < pow2 1023 \<longrightarrow>
      is_finite (convert_to (convert_from q u) u) \<and>
      sign_of (convert_to (convert_from q u) u) = sign_of q \<and>
      \<bar>val (convert_to (convert_from q u) u) - val q\<bar>
        \<le> \<bar>val q\<bar> * (1 / 2 ^ 52 + 1 / 2 ^ 106))"
proof (intro conjI allI impI ballI)
  fix u
  assume "u \<in> set (prefix_table @ unit_table)"
  then have "u \<in> {micro, milli, centi, deci, kilo, mega, giga, meter, inch, feet, second,
    minute, hour, day, year, kilogram, pound, gravity, Newton, lbf, Pascal, barsa, atm, psia,
    Pas, Poise, darcy}"
    unfolding prefix_table_def unit_table_def by simp
  then have "deq (convert_to (convert_from (dbl 0) u) u) (dbl 0) \<and>
     deq (convert_to (convert_from (dbl 1) u) u) (dbl 1) \<and>
     deq (convert_to (convert_from (dbl (- 1)) u) u) (dbl (- 1)) \<and>
     deq (convert_to (convert_from (dbl (1 / 10 ^ 6)) u) u) (dbl (1 / 10 ^ 6)) \<and>
     (u \<noteq> pound \<and> u \<noteq> gravity \<longrightarrow>
        deq (convert_to (convert_from (dbl (10 ^ 6)) u) u) (dbl (10 ^ 6)))"
    by (elim insertE emptyE; hypsubst)
      (rule roundtrip_micro roundtrip_milli roundtrip_centi roundtrip_deci roundtrip_kilo
        roundtrip_mega roundtrip_giga roundtrip_meter roundtrip_inch roundtrip_feet
        roundtrip_second roundtrip_minute roundtrip_hour roundtrip_day roundtrip_year
        roundtrip_kilogram roundtrip_pound roundtrip_gravity roundtrip_Newton roundtrip_lbf
        roundtrip_Pascal roundtrip_barsa roundtrip_atm roundtrip_psia roundtrip_Pas
        roundtrip_Poise roundtrip_darcy)+
  then show "deq (convert_to (convert_from (dbl 0) u) u) (dbl 0)"
    and "deq (convert_to (convert_from (dbl 1) u) u) (dbl 1)"
    and "deq (convert_to (convert_from (dbl (- 1)) u) u) (dbl (- 1))"
    and "deq (convert_to (convert_from (dbl (1 / 10 ^ 6)) u) u) (dbl (1 / 10 ^ 6))"
    and "u \<noteq> pound \<and> u \<noteq> gravity \<Longrightarrow>
        deq (convert_to (convert_from (dbl (10 ^ 6)) u) u) (dbl (10 ^ 6))"
    by blast+
next
  fix q u
  assume h: "is_finite q \<and> is_finite u \<and> 0 < mag u \<and>
      pow2 (- 1021) \<le> mag q \<and> mag q < pow2 1023 \<and>
      pow2 (- 1022) \<le> mag q * mag u \<and> mag q * mag u < pow2 1023"
  obtain s a where q: "q = Finite s a" using h by (cases q) simp_all
  obtain t b where u: "u = Finite t b" using h by (cases u) simp_all
  have a: "0 < a" using h pow2_pos [of "- 1021"] by (simp add: q)
  obtain m where m: "convert_to (convert_from q u) u = Finite s m"
    and e: "\<bar>m - a\<bar> \<le> a * (1 / 2 ^ 52 + 1 / 2 ^ 106)"
    using roundtrip_error [of b a s t] h unfolding q u by auto
  have "\<bar>val (Finite s m) - val (Finite s a)\<bar> = \<bar>m - a\<bar>"
    by (cases s) (simp_all add: abs_minus_commute)
  then have v: "\<bar>val (convert_to (convert_from q u) u) - val q\<bar>
        \<le> \<bar>val q\<bar> * (1 / 2 ^ 52 + 1 / 2 ^ 106)"
    using e a unfolding m by (simp add: q)
  show "is_finite (convert_to (convert_from q u) u)" by (simp add: m)
  show "sign_of (convert_to (convert_from q u) u) = sign_of q" unfolding m by (simp add: q)
  show "\<bar>val (convert_to (convert_from q u) u) - val q\<bar>
        \<le> \<bar>val q\<bar> * (1 / 2 ^ 52 + 1 / 2 ^ 106)" by (rule v)
qed

theorem roundtrip_law_witness:
  "psia \<in> set (prefix_table @ unit_table) \<and> psia \<noteq> pound \<and> psia \<noteq> gravity \<and>
   deq (convert_to (convert_from (dbl (1 / 10 ^ 6)) psia) psia) (dbl (1 / 10 ^ 6)) \<and>
   deq (convert_to (convert_from (dbl (10 ^ 6)) psia) psia) (dbl (10 ^ 6)) \<and>
   is_finite (dbl (10 ^ 6)) \<and> is_finite pound \<and> 0 < mag pound \<and>
   pow2 (- 1021) \<le> mag (dbl (10 ^ 6)) \<and> mag (dbl (10 ^ 6)) < pow2 1023 \<and>
   pow2 (- 1022) \<le> mag (dbl (10 ^ 6)) * mag pound \<and>
   mag (dbl (10 ^ 6)) * mag pound < pow2 1023 \<and>
   \<bar>val (convert_to (convert_from (dbl (10 ^ 6)) pound) pound) - val (dbl (10 ^ 6))\<bar>
     \<le> \<bar>val (dbl (10 ^ 6))\<bar> * (1 / 2 ^ 52 + 1 / 2 ^ 106)"
proof -
  have m: "psia \<in> set (prefix_table @ unit_table)"
    by (simp add: unit_table_def)
  have n: "psia \<noteq> pound \<and> psia \<noteq> gravity"
    unfolding psia_val pound_val gravity_val by simp
  have h: "is_finite (dbl (10 ^ 6)) \<and> is_finite pound \<and> 0 < mag pound \<and>
    pow2 (- 1021) \<le> mag (dbl (10 ^ 6)) \<and> mag (dbl (10 ^ 6)) < pow2 1023 \<and>
    pow2 (- 1022) \<le> mag (dbl (10 ^ 6)) * mag pound \<and>
    mag (dbl (10 ^ 6)) * mag pound < pow2 1023"
    unfolding lit_1e6 pound_val by (simp add: pow2_def)
  show ?thesis
    using roundtrip_law m n h by blast
qed

end
